theory Spec2Isabelle
  imports Complex_Main
begin

section \<open>Data model of \<open>para_mlp/train.py\<close>\<close>

text \<open>
  Python floats are read as real numbers and Python ints as integers. Arithmetic on floats
  is the arithmetic of the reals, except where a float is truncated to an integer: there
  the rounding of the operations before it decides the result, and they are the rounding
  operations of binary64 (section ``Library operations''). Every exception the
  orchestration code can raise is a value of \<open>error\<close>; a function that may raise returns
  \<open>error + 'a\<close> with \<open>Inl\<close> carrying the exception. \<open>CollaboratorError\<close> stands for any
  failure raised inside the external model (feature construction, weighting, fitting,
  prediction), which the orchestration code does not catch.
\<close>

datatype error =
    ValueError
  | StatisticsError
  | UnboundLocalError
  | ZeroDivisionError
  | IndexError
  | AttributeError
  | OverflowError
  | CollaboratorError

definition bindE :: "error + 'a \<Rightarrow> ('a \<Rightarrow> error + 'b) \<Rightarrow> error + 'b" where
  "bindE m f = (case m of Inl e \<Rightarrow> Inl e | Inr v \<Rightarrow> f v)"

type_synonym vec = "real list"

record "structure" =
  sites :: "nat list"

record dataset =
  structures :: "structure list"
  target :: vec

text \<open>The three lists of row ids that \<open>make_yids_for_structure_ids\<close> returns.\<close>

record yids =
  energy :: "nat list"
  force :: "nat list"
  target :: "nat list"

text \<open>One point of the grid (the dict that \<open>ParameterGrid\<close> yields).\<close>

record hyper_params =
  alpha :: real
  cutoff_radius :: real
  gaussian_params2_num :: int

text \<open>The dict returned by \<open>make_param_grid\<close>, one tuple of candidates per key.\<close>

record param_grid =
  cutoff_radius :: "real list"
  gaussian_params2_num :: "int list"
  alpha :: "real list"

text \<open>
  \<open>ModelParams\<close>: the fields that \<open>arrange_model_from_hyper_params\<close> reads or assigns.
  The class is declared outside the modelled sources; whatever else it holds is the
  record's extension.
\<close>

record model_params =
  alpha :: real
  cutoff_radius :: real
  gaussian_params2_num :: int
  composite_num :: int
  feature_type :: string
  gtinv_lmax :: "int list"
  use_gtinv_sym :: "bool list"
  use_force :: bool
  use_spin :: bool
  gaussian_params2_flag :: int
  polynomial_model :: int
  polynomial_max_order :: int
  is_paramagnetic :: bool
  delta_learning :: bool

text \<open>
  \<open>RILRM\<close>: the model object. The orchestration code touches one attribute, the feature
  matrix \<open>x\<close>; everything else the object owns is the record's extension.
\<close>

record rilrm =
  x :: "real list list option"

record config =
  cutoff_radius_min :: real
  cutoff_radius_max :: real
  gaussian_params2_num_min :: int
  gaussian_params2_num_max :: int
  alpha :: "real list"
  n_splits :: int
  energy_weight :: real
  force_weight :: real
  high_energy_weights :: "real list"
  composite_num :: int
  feature_type :: string
  gtinv_lmax :: "int list"
  use_gtinv_sym :: "bool list"
  use_force :: bool
  use_spin :: bool
  gaussian_params2_flag :: int
  polynomial_model :: int
  polynomial_max_order :: int
  is_paramagnetic :: bool
  delta_learning :: bool
  model_dir :: string

text \<open>
  The collaborators that \<open>train.py\<close> imports: the model class and its methods, the helpers
  of \<open>para_mlp.utils\<close>, the permutation that \<open>KFold(shuffle=True, random_state=0)\<close>
  draws for a given number of samples, and what \<open>np.arange\<close> returns when a bound does not
  fit a 64-bit integer. Model methods mutate the object in Python; here they return the
  updated object.
\<close>

record ('p, 'r) collab =
  from_dict :: "hyper_params \<Rightarrow> 'p model_params_scheme"
  set_api_params :: "'p model_params_scheme \<Rightarrow> 'p model_params_scheme"
  RILRM :: "'p model_params_scheme \<Rightarrow> 'r rilrm_scheme"
  make_feature :: "'r rilrm_scheme \<Rightarrow> structure list \<Rightarrow> bool \<Rightarrow> error + 'r rilrm_scheme"
  apply_weight :: "'r rilrm_scheme \<Rightarrow> real \<Rightarrow> real \<Rightarrow> real list \<Rightarrow> nat list list option \<Rightarrow> nat
                   \<Rightarrow> error + 'r rilrm_scheme"
  train :: "'r rilrm_scheme \<Rightarrow> nat list \<Rightarrow> vec \<Rightarrow> error + 'r rilrm_scheme"
  predict :: "'r rilrm_scheme \<Rightarrow> structure list option \<Rightarrow> error + vec"
  rmse :: "vec \<Rightarrow> vec \<Rightarrow> real"
  average :: "vec \<Rightarrow> real"
  round_to_4 :: "real \<Rightarrow> real"
  make_yids_for_structure_ids :: "nat list \<Rightarrow> nat \<Rightarrow> int \<Rightarrow> bool \<Rightarrow> yids"
  make_high_energy_index :: "nat \<Rightarrow> config \<Rightarrow> nat \<Rightarrow> int \<Rightarrow> yids \<Rightarrow> nat list"
  shuffle :: "nat \<Rightarrow> nat list"
  arange_wide :: "int \<Rightarrow> int \<Rightarrow> int \<Rightarrow> int list"

section \<open>Library operations used by the code\<close>

text \<open>
  Rounding to binary64: a non-zero real is rounded to the nearest multiple of its unit in
  the last place (53 significant bits, exponents from \<open>-1074\<close>), ties going to the even
  multiple. A result of magnitude \<open>2 ^ 1024\<close> or more stands for an infinity.
\<close>

definition round_even :: "real \<Rightarrow> int" where
  "round_even v =
     (let f = \<lfloor>v\<rfloor>
      in if v - of_int f < 1 / 2 then f
         else if 1 / 2 < v - of_int f then f + 1
         else if even f then f else f + 1)"

definition ulp :: "real \<Rightarrow> real" where
  "ulp v = 2 powr real_of_int (max (\<lfloor>log 2 \<bar>v\<bar>\<rfloor> - 52) (- 1074))"

definition fround :: "real \<Rightarrow> real" where
  "fround v = (if v = 0 then 0 else real_of_int (round_even (v / ulp v)) * ulp v)"

definition fsub :: "real \<Rightarrow> real \<Rightarrow> real" where
  "fsub a b = fround (a - b)"

definition fdiv :: "real \<Rightarrow> real \<Rightarrow> real" where
  "fdiv a b = fround (a / b)"

text \<open>\<open>int(v)\<close> on a finite float truncates toward zero.\<close>

definition py_int :: "real \<Rightarrow> int" where
  "py_int v = (if 0 \<le> v then \<lfloor>v\<rfloor> else \<lceil>v\<rceil>)"

text \<open>
  \<open>np.linspace(start, stop, num)\<close> with the endpoint included: a negative \<open>num\<close> raises
  \<open>ValueError\<close>, \<open>num = 1\<close> gives \<open>[start]\<close>, otherwise the step is
  \<open>(stop - start) / (num - 1)\<close>. The candidates are read as reals.
\<close>

definition linspace :: "real \<Rightarrow> real \<Rightarrow> int \<Rightarrow> error + real list" where
  "linspace start stop num =
     (if num < 0 then Inl ValueError
      else if num = 1 then Inr [start]
      else Inr (map (\<lambda>i. start + real i * ((stop - start) / real (nat num - 1))) [0..<nat num]))"

text \<open>
  \<open>np.arange(start, stop, step)\<close> on Python integers, for a positive step. When the three
  arguments fit 64-bit integers the result is computed in them; otherwise NumPy leaves the
  integers, and the result is the collaborator's.
\<close>

definition int64 :: "int \<Rightarrow> bool" where
  "int64 v \<longleftrightarrow> - (2 ^ 63) \<le> v \<and> v < 2 ^ 63"

definition arange :: "(int \<Rightarrow> int \<Rightarrow> int \<Rightarrow> int list) \<Rightarrow> int \<Rightarrow> int \<Rightarrow> int \<Rightarrow> int list" where
  "arange wide start stop step =
     (if int64 start \<and> int64 stop \<and> int64 step
      then map (\<lambda>i. start + step * int i)
             [0..<nat \<lceil>real_of_int (stop - start) / real_of_int step\<rceil>]
      else wide start stop step)"

text \<open>
  \<open>ParameterGrid(param_grid)\<close> rejects a dimension without candidates with \<open>ValueError\<close>.
  It iterates the cartesian product over the keys in sorted order (\<open>alpha\<close>,
  \<open>cutoff_radius\<close>, \<open>gaussian_params2_num\<close>), the last key varying fastest.
\<close>

definition ParameterGrid :: "param_grid \<Rightarrow> error + hyper_params list" where
  "ParameterGrid g =
     (if param_grid.cutoff_radius g = [] \<or> param_grid.gaussian_params2_num g = []
         \<or> param_grid.alpha g = []
      then Inl ValueError
      else Inr (concat (map (\<lambda>a.
             concat (map (\<lambda>r.
               map (\<lambda>n. \<lparr>hyper_params.alpha = a, cutoff_radius = r, gaussian_params2_num = n\<rparr>)
                   (param_grid.gaussian_params2_num g))
               (param_grid.cutoff_radius g)))
             (param_grid.alpha g))))"

definition ParameterGrid_getitem :: "param_grid \<Rightarrow> nat \<Rightarrow> error + hyper_params" where
  "ParameterGrid_getitem g i =
     bindE (ParameterGrid g)
       (\<lambda>points. if i < length points then Inr (points ! i) else Inl IndexError)"

text \<open>
  \<open>KFold(n_splits, shuffle=True, random_state=0)\<close>: the constructor rejects
  \<open>n_splits \<le> 1\<close>; \<open>split\<close> rejects more folds than samples, cuts the shuffled indices into
  \<open>n_splits\<close> consecutive slices whose sizes differ by at most one, and yields for each
  slice the ascending complement (training ids) and the ascending slice (validation ids).
\<close>

definition KFold :: "int \<Rightarrow> error + nat" where
  "KFold k = (if k \<le> 1 then Inl ValueError else Inr (nat k))"

definition fold_sizes :: "nat \<Rightarrow> nat \<Rightarrow> nat list" where
  "fold_sizes n k = map (\<lambda>i. n div k + (if i < n mod k then 1 else 0)) [0..<k]"

fun fold_slices :: "nat list \<Rightarrow> nat list \<Rightarrow> nat list list" where
  "fold_slices ix [] = []"
| "fold_slices ix (s # ss) = take s ix # fold_slices (drop s ix) ss"

definition KFold_split :: "nat list \<Rightarrow> nat \<Rightarrow> nat \<Rightarrow> error + (nat list \<times> nat list) list" where
  "KFold_split perm k n =
     (if n < k then Inl ValueError
      else Inr (map (\<lambda>test. (filter (\<lambda>i. i \<notin> set test) [0..<n], filter (\<lambda>i. i \<in> set test) [0..<n]))
                    (fold_slices perm (fold_sizes n k))))"

text \<open>\<open>statistics.stdev\<close> raises \<open>StatisticsError\<close> on fewer than two data points.\<close>

definition stdev :: "vec \<Rightarrow> error + real" where
  "stdev xs =
     (if length xs < 2 then Inl StatisticsError
      else Inr (sqrt ((\<Sum>v\<leftarrow>xs. (v - sum_list xs / real (length xs))\<^sup>2) / real (length xs - 1))))"

text \<open>Indexing an array with a list of row ids: \<open>v[ids]\<close>.\<close>

definition take_rows :: "vec \<Rightarrow> nat list \<Rightarrow> error + vec" where
  "take_rows v ids = (if list_all (\<lambda>i. i < length v) ids then Inr (map ((!) v) ids) else Inl IndexError)"

text \<open>In-place scaling of the rows named by an index array: \<open>v[ids] *= w\<close>.\<close>

definition scale_rows :: "vec \<Rightarrow> nat list \<Rightarrow> real \<Rightarrow> error + vec" where
  "scale_rows v ids w =
     (if list_all (\<lambda>i. i < length v) ids
      then Inr (map (\<lambda>j. if j \<in> set ids then v ! j * w else v ! j) [0..<length v])
      else Inl IndexError)"

section \<open>The parameter grid\<close>

text \<open>
  Lines 37 to 61. The difference of the bounds and its half are floats; a difference that
  overflows is an infinity, stays one when halved, and makes \<open>int\<close> raise \<open>OverflowError\<close>.
\<close>

definition make_param_grid :: "('p, 'r) collab \<Rightarrow> config \<Rightarrow> error + param_grid" where
  "make_param_grid ext cfg =
     (let span = fsub (cutoff_radius_max cfg) (cutoff_radius_min cfg)
      in if 2 ^ 1024 \<le> \<bar>span\<bar> then Inl OverflowError
         else (let cutoff_radius_num = py_int (fdiv span 2) + 1
               in bindE (linspace (cutoff_radius_min cfg) (cutoff_radius_max cfg) cutoff_radius_num)
                    (\<lambda>radii. Inr \<lparr>param_grid.cutoff_radius = radii,
                                  gaussian_params2_num =
                                    arange (arange_wide ext) (gaussian_params2_num_min cfg)
                                      (gaussian_params2_num_max cfg + 5) 5,
                                  alpha = config.alpha cfg\<rparr>)))"

section \<open>The model factory\<close>

definition arrange_model_from_hyper_params ::
  "('p, 'r) collab \<Rightarrow> hyper_params \<Rightarrow> config \<Rightarrow> 'r rilrm_scheme" where
  "arrange_model_from_hyper_params ext hyper_params cfg =
     (let model_params = from_dict ext hyper_params;
          model_params = model_params\<lparr>model_params.composite_num := config.composite_num cfg\<rparr>;
          model_params = model_params\<lparr>model_params.feature_type := config.feature_type cfg\<rparr>;
          model_params = model_params\<lparr>model_params.gtinv_lmax := config.gtinv_lmax cfg\<rparr>;
          model_params = model_params\<lparr>model_params.use_gtinv_sym := config.use_gtinv_sym cfg\<rparr>;
          model_params = model_params\<lparr>model_params.use_force := config.use_force cfg\<rparr>;
          model_params = model_params\<lparr>model_params.use_spin := config.use_spin cfg\<rparr>;
          model_params = model_params\<lparr>model_params.gaussian_params2_flag := config.gaussian_params2_flag cfg\<rparr>;
          model_params = model_params\<lparr>model_params.polynomial_model := config.polynomial_model cfg\<rparr>;
          model_params = model_params\<lparr>model_params.polynomial_max_order := config.polynomial_max_order cfg\<rparr>;
          model_params = model_params\<lparr>model_params.is_paramagnetic := config.is_paramagnetic cfg\<rparr>;
          model_params = model_params\<lparr>model_params.delta_learning := config.delta_learning cfg\<rparr>;
          model_params = set_api_params ext model_params
      in RILRM ext model_params)"

section \<open>Cross validation\<close>

text \<open>
  Lines 116 to 119 of \<open>cross_validate\<close> and 256 to 258 of \<open>train_and_eval\<close>: the number of
  structures, the force rows per structure and the atoms per structure. Integer division by
  an empty structure list raises; nothing compares the target length with the structure
  count.
\<close>

definition dataset_dims :: "dataset \<Rightarrow> error + (nat \<times> int \<times> nat)" where
  "dataset_dims kfold_dataset =
     (let n_kfold_structure = length (structures kfold_dataset)
      in if n_kfold_structure = 0 then Inl ZeroDivisionError
         else (let force_id_unit =
                     int (length (dataset.target kfold_dataset)) div int n_kfold_structure - 1
               in case structures kfold_dataset of
                    [] \<Rightarrow> Inl IndexError
                  | s # _ \<Rightarrow> Inr (n_kfold_structure, force_id_unit, length (sites s))))"

text \<open>
  The three score lists a candidate accumulates over its folds
  (\<open>test_model_rmses\<close>, \<open>test_model_rmses_energy\<close>, \<open>test_model_rmses_force\<close>).
\<close>

record fold_scores =
  rmses :: vec
  rmses_energy :: vec
  rmses_force :: vec

text \<open>One pass of the loop over the folds (lines 146 to 180).\<close>

definition score_fold ::
  "('p, 'r) collab \<Rightarrow> config \<Rightarrow> vec \<Rightarrow> nat \<Rightarrow> int \<Rightarrow> nat \<Rightarrow> 'r rilrm_scheme \<Rightarrow> fold_scores
   \<Rightarrow> nat list \<times> nat list \<Rightarrow> error + ('r rilrm_scheme \<times> fold_scores)" where
  "score_fold ext cfg tgt n_kfold_structure force_id_unit n_atoms_in_structure test_model acc fd =
     (let yids_for_train = make_yids_for_structure_ids ext (fst fd) n_kfold_structure
                             force_id_unit (config.use_force cfg);
          yids_for_valid = make_yids_for_structure_ids ext (snd fd) n_kfold_structure
                             force_id_unit (config.use_force cfg)
      in bindE (train ext test_model (yids.target yids_for_train) tgt) (\<lambda>test_model.
         bindE (predict ext test_model None) (\<lambda>y_predict.
         bindE (take_rows y_predict (yids.target yids_for_valid)) (\<lambda>p_target.
         bindE (take_rows tgt (yids.target yids_for_valid)) (\<lambda>e_target.
         bindE (take_rows y_predict (energy yids_for_valid)) (\<lambda>p_energy.
         bindE (take_rows tgt (energy yids_for_valid)) (\<lambda>e_energy.
         (let acc = acc\<lparr>rmses := rmses acc @ [rmse ext p_target e_target]\<rparr>;
              acc = acc\<lparr>rmses_energy := rmses_energy acc
                          @ [rmse ext (map (\<lambda>v. v / real n_atoms_in_structure) p_energy)
                                      (map (\<lambda>v. v / real n_atoms_in_structure) e_energy) * 1000]\<rparr>
          in if config.use_force cfg
             then bindE (take_rows y_predict (force yids_for_valid)) (\<lambda>p_force.
                  bindE (take_rows tgt (force yids_for_valid)) (\<lambda>e_force.
                  Inr (test_model, acc\<lparr>rmses_force := rmses_force acc @ [rmse ext p_force e_force]\<rparr>)))
             else Inr (test_model, acc)))))))))"

fun score_folds ::
  "('p, 'r) collab \<Rightarrow> config \<Rightarrow> vec \<Rightarrow> nat \<Rightarrow> int \<Rightarrow> nat \<Rightarrow> 'r rilrm_scheme \<Rightarrow> fold_scores
   \<Rightarrow> (nat list \<times> nat list) list \<Rightarrow> error + ('r rilrm_scheme \<times> fold_scores)" where
  "score_folds ext cfg tgt n fiu na test_model acc [] = Inr (test_model, acc)"
| "score_folds ext cfg tgt n fiu na test_model acc (fd # folds) =
     bindE (score_fold ext cfg tgt n fiu na test_model acc fd)
       (\<lambda>(test_model, acc). score_folds ext cfg tgt n fiu na test_model acc folds)"

text \<open>
  What the debug log holds for a candidate (lines 185 to 206): the per-fold scores rounded
  by \<open>round_to_4\<close>, and their mean and standard deviation, which are taken before the
  rounding; for the combined target, for the energy, and for the force when it is used.
\<close>

record candidate_log =
  log_params :: hyper_params
  log_target :: vec
  log_target_average :: real
  log_target_std_dev :: real
  log_energy :: vec
  log_energy_average :: real
  log_energy_std_dev :: real
  log_force :: "(vec \<times> real \<times> real) option"

text \<open>
  The body of the loop over the grid up to the comparison (lines 125 to 206): build the
  candidate, its features and weights, score it on every fold, and aggregate. The log line
  of the feature matrix's shape reads \<open>test_model.x.shape\<close>, which raises when \<open>x\<close> is absent.
  The result is the candidate, its mean combined RMSE \<open>test_model_rmse\<close>, and what was
  logged.
\<close>

definition candidate_scores ::
  "('p, 'r) collab \<Rightarrow> config \<Rightarrow> dataset \<Rightarrow> nat list list option \<Rightarrow> nat \<Rightarrow> int \<Rightarrow> nat
   \<Rightarrow> hyper_params \<Rightarrow> error + ('r rilrm_scheme \<times> real \<times> candidate_log)" where
  "candidate_scores ext cfg kfold_dataset high_energy_index_list n_kfold_structure force_id_unit
                    n_atoms_in_structure hyper_params =
     (let test_model = arrange_model_from_hyper_params ext hyper_params cfg
      in bindE (make_feature ext test_model (structures kfold_dataset) True) (\<lambda>test_model.
         bindE (apply_weight ext test_model (energy_weight cfg) (force_weight cfg)
                  (high_energy_weights cfg) high_energy_index_list n_kfold_structure) (\<lambda>test_model.
         bindE (case x test_model of None \<Rightarrow> Inl AttributeError | Some _ \<Rightarrow> Inr ()) (\<lambda>_.
         bindE (KFold (n_splits cfg)) (\<lambda>kf.
         bindE (KFold_split (shuffle ext n_kfold_structure) kf n_kfold_structure) (\<lambda>folds.
         bindE (score_folds ext cfg (dataset.target kfold_dataset) n_kfold_structure force_id_unit
                  n_atoms_in_structure test_model \<lparr>rmses = [], rmses_energy = [], rmses_force = []\<rparr>
                  folds) (\<lambda>(test_model, scores).
         (let test_model_rmse = average ext (rmses scores)
          in bindE (stdev (rmses scores)) (\<lambda>rmse_std_dev.
             (let rmse_energy_average = average ext (rmses_energy scores)
              in bindE (stdev (rmses_energy scores)) (\<lambda>rmse_energy_std_dev.
                 (let logged = \<lparr>log_params = hyper_params,
                                 log_target = map (round_to_4 ext) (rmses scores),
                                 log_target_average = test_model_rmse,
                                 log_target_std_dev = rmse_std_dev,
                                 log_energy = map (round_to_4 ext) (rmses_energy scores),
                                 log_energy_average = rmse_energy_average,
                                 log_energy_std_dev = rmse_energy_std_dev,
                                 log_force = None\<rparr>
                  in if config.use_force cfg
                     then (let rmse_force_average = average ext (rmses_force scores)
                           in bindE (stdev (rmses_force scores)) (\<lambda>rmse_force_std_dev.
                              Inr (test_model, test_model_rmse,
                                   logged\<lparr>log_force :=
                                            Some (map (round_to_4 ext) (rmses_force scores),
                                                  rmse_force_average, rmse_force_std_dev)\<rparr>)))
                     else Inr (test_model, test_model_rmse, logged)))))))))))))"

text \<open>What the comparison of the loop takes from the body: the candidate and its mean.\<close>

definition eval_candidate ::
  "('p, 'r) collab \<Rightarrow> config \<Rightarrow> dataset \<Rightarrow> nat list list option \<Rightarrow> nat \<Rightarrow> int \<Rightarrow> nat
   \<Rightarrow> hyper_params \<Rightarrow> error + ('r rilrm_scheme \<times> real)" where
  "eval_candidate ext cfg kfold_dataset high_energy_index_list n_kfold_structure force_id_unit
                  n_atoms_in_structure hyper_params =
     bindE (candidate_scores ext cfg kfold_dataset high_energy_index_list n_kfold_structure
              force_id_unit n_atoms_in_structure hyper_params)
       (\<lambda>(test_model, test_model_rmse, logged). Inr (test_model, test_model_rmse))"

text \<open>
  The search state: \<open>retained_model_rmse\<close>, and the two variables that are bound only
  once a candidate has been retained.
\<close>

record 'r cv_state =
  retained_model_rmse :: real
  retained_model :: "'r rilrm_scheme option"
  retained_model_params :: "hyper_params option"

text \<open>
  Lines 218 to 223: on strict improvement the state takes the candidate's score, a deep
  copy of the candidate with its feature matrix set to \<open>None\<close>, and a deep copy of the
  hyper parameters. As values, a deep copy is the value itself.
\<close>

definition retain :: "'r cv_state \<Rightarrow> 'r rilrm_scheme \<Rightarrow> hyper_params \<Rightarrow> real \<Rightarrow> 'r cv_state" where
  "retain st test_model hyper_params test_model_rmse =
     (if test_model_rmse < retained_model_rmse st
      then \<lparr>retained_model_rmse = test_model_rmse,
            retained_model = Some (test_model\<lparr>x := None\<rparr>),
            retained_model_params = Some hyper_params\<rparr>
      else st)"

text \<open>
  The loop over the grid (lines 123 to 227), over an evaluation function for the part of
  the body above the comparison. The log lines after the comparison read
  \<open>retained_model_params\<close>, which is unbound until a candidate has been retained.
\<close>

fun cv_loop ::
  "(hyper_params \<Rightarrow> error + ('r rilrm_scheme \<times> real)) \<Rightarrow> hyper_params list \<Rightarrow> 'r cv_state
   \<Rightarrow> error + 'r cv_state" where
  "cv_loop ev [] st = Inr st"
| "cv_loop ev (hyper_params # rest) st =
     bindE (ev hyper_params) (\<lambda>(test_model, test_model_rmse).
       (let st = retain st test_model hyper_params test_model_rmse
        in case retained_model_params st of
             None \<Rightarrow> Inl UnboundLocalError
           | Some _ \<Rightarrow> cv_loop ev rest st))"

text \<open>
  Lines 121 and 229 to 236: the sentinel, the loop, and the return, which reads
  \<open>retained_model_params\<close> for the log and then \<open>retained_model\<close>.
\<close>

definition search ::
  "(hyper_params \<Rightarrow> error + ('r rilrm_scheme \<times> real)) \<Rightarrow> hyper_params list
   \<Rightarrow> error + 'r rilrm_scheme" where
  "search ev grid =
     bindE (cv_loop ev grid
              \<lparr>retained_model_rmse = 10 ^ 10, retained_model = None, retained_model_params = None\<rparr>)
       (\<lambda>st. case retained_model_params st of
                None \<Rightarrow> Inl UnboundLocalError
              | Some _ \<Rightarrow> (case retained_model st of
                            None \<Rightarrow> Inl UnboundLocalError
                          | Some m \<Rightarrow> Inr m))"

text \<open>
  \<open>cross_validate\<close> (lines 116 to 236). Beside the model it returns, a run that returns has
  logged every candidate of the grid, in the order of the grid.
\<close>

record 'r searched =
  best_model :: "'r rilrm_scheme"
  debug_log :: "candidate_log list"

definition logged_candidates ::
  "(hyper_params \<Rightarrow> error + ('r rilrm_scheme \<times> real \<times> candidate_log)) \<Rightarrow> hyper_params list
   \<Rightarrow> candidate_log list" where
  "logged_candidates run grid =
     concat (map (\<lambda>hyper_params. case run hyper_params of
                                   Inl _ \<Rightarrow> []
                                 | Inr (test_model, test_model_rmse, logged) \<Rightarrow> [logged])
                 grid)"

definition cross_validate ::
  "('p, 'r) collab \<Rightarrow> config \<Rightarrow> param_grid \<Rightarrow> dataset \<Rightarrow> nat list list option
   \<Rightarrow> error + 'r searched" where
  "cross_validate ext cfg param_grid kfold_dataset high_energy_index_list =
     bindE (dataset_dims kfold_dataset) (\<lambda>(n_kfold_structure, force_id_unit, n_atoms_in_structure).
     bindE (ParameterGrid param_grid) (\<lambda>grid.
     bindE (search (eval_candidate ext cfg kfold_dataset high_energy_index_list n_kfold_structure
                      force_id_unit n_atoms_in_structure) grid) (\<lambda>retained.
       Inr \<lparr>best_model = retained,
            debug_log = logged_candidates
                          (candidate_scores ext cfg kfold_dataset high_energy_index_list
                             n_kfold_structure force_id_unit n_atoms_in_structure) grid\<rparr>)))"

section \<open>Training and evaluation\<close>

text \<open>
  Lines 260 to 264: the energy block (the first \<open>n_kfold_structure\<close> rows) and the force
  block (the rest) of the target are scaled in place, each only when its weight is not 1.
\<close>

definition dataset_weighting :: "config \<Rightarrow> nat \<Rightarrow> vec \<Rightarrow> vec" where
  "dataset_weighting cfg n_kfold_structure tgt =
     (let tgt = (if energy_weight cfg \<noteq> 1
                 then map (\<lambda>v. v * energy_weight cfg) (take n_kfold_structure tgt)
                      @ drop n_kfold_structure tgt
                 else tgt);
          tgt = (if force_weight cfg \<noteq> 1
                 then take n_kfold_structure tgt
                      @ map (\<lambda>v. v * force_weight cfg) (drop n_kfold_structure tgt)
                 else tgt)
      in tgt)"

text \<open>Lines 280 to 283: one in-place scaling per high-energy group, in order.\<close>

fun apply_overrides :: "vec \<Rightarrow> (nat list \<times> real) list \<Rightarrow> error + vec" where
  "apply_overrides tgt [] = Inr tgt"
| "apply_overrides tgt ((ids, w) # rest) =
     bindE (scale_rows tgt ids w) (\<lambda>tgt. apply_overrides tgt rest)"

text \<open>
  Lines 266 to 283. The result is \<open>high_energy_index_list\<close>, which stays \<open>None\<close> when the
  branch is not taken, and the target. In the guard the second disjunct is read only when
  there is exactly one weight.
\<close>

definition high_energy_override ::
  "('p, 'r) collab \<Rightarrow> config \<Rightarrow> dataset \<Rightarrow> nat \<Rightarrow> int \<Rightarrow> yids \<Rightarrow> vec
   \<Rightarrow> error + (nat list list option \<times> vec)" where
  "high_energy_override ext cfg test_dataset n_kfold_structure force_id_unit yids_for_kfold tgt =
     (let n_high_energy_structure = length (high_energy_weights cfg)
      in if n_high_energy_structure \<noteq> 1 \<or> high_energy_weights cfg ! 0 \<noteq> 1
         then (let n_structure = length (structures test_dataset) + n_kfold_structure;
                   high_energy_index_list =
                     map (\<lambda>i. make_high_energy_index ext (i + 1) cfg n_structure force_id_unit
                                yids_for_kfold)
                         [0..<n_high_energy_structure]
               in bindE (apply_overrides tgt (zip high_energy_index_list (high_energy_weights cfg)))
                    (\<lambda>tgt. Inr (Some high_energy_index_list, tgt)))
         else Inr (None, tgt))"

text \<open>Lines 286 to 299: the grid, the test on its dimensions, and the two ways to a model.\<close>

definition dont_cross_validate :: "param_grid \<Rightarrow> bool" where
  "dont_cross_validate param_grid =
     list_all (\<lambda>len_val. len_val = 1)
       [length (param_grid.cutoff_radius param_grid),
        length (param_grid.gaussian_params2_num param_grid),
        length (param_grid.alpha param_grid)]"

definition select_model ::
  "('p, 'r) collab \<Rightarrow> config \<Rightarrow> dataset \<Rightarrow> nat list list option \<Rightarrow> error + 'r rilrm_scheme" where
  "select_model ext cfg kfold_dataset high_energy_index_list =
     bindE (make_param_grid ext cfg) (\<lambda>param_grid.
       if dont_cross_validate param_grid
       then bindE (ParameterGrid_getitem param_grid 0)
              (\<lambda>hyper_params. Inr (arrange_model_from_hyper_params ext hyper_params cfg))
       else bindE (cross_validate ext cfg param_grid kfold_dataset high_energy_index_list)
              (\<lambda>found. Inr (best_model found)))"

text \<open>
  What a run of \<open>train_and_eval\<close> leaves behind: the returned model, the target of the
  k-fold pool as mutated in place, the four logged scores, and the two calls of
  \<open>record_energy_prediction_accuracy\<close> (predicted energies, expected energies, file name).
\<close>

record 'r report =
  model :: "'r rilrm_scheme"
  kfold_target :: vec
  train_energy :: real
  train_force :: "real option"
  test_energy :: real
  test_force :: "real option"
  recorded :: "(vec \<times> vec \<times> string) list"

text \<open>Lines 301 to 370: train the retained model on every row and score it on both pools.\<close>

definition retrain_and_score ::
  "('p, 'r) collab \<Rightarrow> config \<Rightarrow> dataset \<Rightarrow> dataset \<Rightarrow> nat list list option \<Rightarrow> nat \<Rightarrow> nat
   \<Rightarrow> 'r rilrm_scheme \<Rightarrow> error + 'r report" where
  "retrain_and_score ext cfg kfold_dataset test_dataset high_energy_index_list n_kfold_structure
                     n_atoms_in_structure retained =
     bindE (make_feature ext retained (structures kfold_dataset) True) (\<lambda>retained.
     bindE (apply_weight ext retained (energy_weight cfg) (force_weight cfg)
              (high_energy_weights cfg) high_energy_index_list n_kfold_structure) (\<lambda>retained.
     bindE (train ext retained [0..<length (dataset.target kfold_dataset)]
              (dataset.target kfold_dataset)) (\<lambda>retained.
     bindE (predict ext retained None) (\<lambda>y_predict.
     (let energy_id_end = length (structures kfold_dataset);
          energy_predict = map (\<lambda>v. v / real n_atoms_in_structure) (take energy_id_end y_predict);
          energy_expected = map (\<lambda>v. v / real n_atoms_in_structure)
                              (take energy_id_end (dataset.target kfold_dataset));
          kfold_energy_filename = model_dir cfg @ ''/prediction/kfold_energy.out'';
          kfold_score_energy = rmse ext energy_predict energy_expected * 1000;
          kfold_score_force =
            (if config.use_force cfg
             then Some (rmse ext (drop energy_id_end y_predict)
                          (drop energy_id_end (dataset.target kfold_dataset)))
             else None)
      in bindE (predict ext retained (Some (structures test_dataset))) (\<lambda>y_predict'.
         (let energy_id_end' = length (structures test_dataset);
              energy_predict' = map (\<lambda>v. v / real n_atoms_in_structure)
                                  (take energy_id_end' y_predict');
              energy_expected' = map (\<lambda>v. v / real n_atoms_in_structure)
                                   (take energy_id_end' (dataset.target test_dataset));
              test_energy_filename = model_dir cfg @ ''/prediction/test_energy.out'';
              test_score_energy = rmse ext energy_predict' energy_expected' * 1000;
              test_score_force =
                (if config.use_force cfg
                 then Some (rmse ext (drop energy_id_end' y_predict')
                              (drop energy_id_end' (dataset.target test_dataset)))
                 else None)
          in Inr \<lparr>model = retained,
                  kfold_target = dataset.target kfold_dataset,
                  train_energy = kfold_score_energy,
                  train_force = kfold_score_force,
                  test_energy = test_score_energy,
                  test_force = test_score_force,
                  recorded = [(energy_predict, energy_expected, kfold_energy_filename),
                              (energy_predict', energy_expected', test_energy_filename)]\<rparr>)))))))"

definition train_and_eval ::
  "('p, 'r) collab \<Rightarrow> config \<Rightarrow> dataset \<Rightarrow> dataset \<Rightarrow> yids \<Rightarrow> error + 'r report" where
  "train_and_eval ext cfg kfold_dataset test_dataset yids_for_kfold =
     bindE (dataset_dims kfold_dataset) (\<lambda>(n_kfold_structure, force_id_unit, n_atoms_in_structure).
     (let tgt = dataset_weighting cfg n_kfold_structure (dataset.target kfold_dataset)
      in bindE (high_energy_override ext cfg test_dataset n_kfold_structure force_id_unit
                  yids_for_kfold tgt) (\<lambda>(high_energy_index_list, tgt).
         (let kfold_dataset = kfold_dataset\<lparr>dataset.target := tgt\<rparr>
          in bindE (select_model ext cfg kfold_dataset high_energy_index_list) (\<lambda>retained.
             retrain_and_score ext cfg kfold_dataset test_dataset high_energy_index_list
               n_kfold_structure n_atoms_in_structure retained)))))"

section \<open>The retention step on an explicit store\<close>

text \<open>
  Lines 218 to 223 once more, with the objects in a store, so that copying and sharing can
  be told apart. An address is an index into the store; allocation appends.
\<close>

type_synonym addr = nat

text \<open>
  Modelled from the spec: the attributes of \<open>RILRM\<close>, which \<open>para_mlp.model\<close> declares outside
  the modelled sources. The model owns a feature matrix, an optional scaler and fitted
  coefficients: under its attribute names it holds \<open>None\<close>, immutable values, or references
  to arrays.
\<close>

datatype 'v attr = ANone | AImm 'v | ARef addr

record 'v store =
  arrays :: "real list list list"
  objects :: "(string \<times> 'v attr) list list"
  dicts :: "hyper_params list"

text \<open>
  \<open>copy.deepcopy\<close> of the attribute dict of an object: attribute by attribute, every
  referenced array is copied to a fresh address, once (the memo maps an address already
  copied to its copy); \<open>None\<close> and immutable values are kept.
\<close>

fun copy_attrs ::
  "real list list list \<Rightarrow> (addr \<times> addr) list \<Rightarrow> (string \<times> 'v attr) list
   \<Rightarrow> real list list list \<times> (addr \<times> addr) list \<times> (string \<times> 'v attr) list" where
  "copy_attrs arrs memo [] = (arrs, memo, [])"
| "copy_attrs arrs memo ((k, v) # rest) =
     (case v of
        ARef a \<Rightarrow>
          (case map_of memo a of
             Some a' \<Rightarrow>
               (case copy_attrs arrs memo rest of
                  (arrs', memo', rest') \<Rightarrow> (arrs', memo', (k, ARef a') # rest'))
           | None \<Rightarrow>
               (case copy_attrs (arrs @ [arrs ! a]) ((a, length arrs) # memo) rest of
                  (arrs', memo', rest') \<Rightarrow> (arrs', memo', (k, ARef (length arrs)) # rest')))
      | _ \<Rightarrow>
          (case copy_attrs arrs memo rest of
             (arrs', memo', rest') \<Rightarrow> (arrs', memo', (k, v) # rest')))"

definition deepcopy_object :: "'v store \<Rightarrow> addr \<Rightarrow> addr \<times> 'v store" where
  "deepcopy_object h a =
     (case copy_attrs (arrays h) [] (objects h ! a) of
        (arrs', memo', attrs') \<Rightarrow>
          (length (objects h), h\<lparr>arrays := arrs', objects := objects h @ [attrs']\<rparr>))"

text \<open>The values of the \<open>hyper_params\<close> dict are numbers: its deep copy is a new dict.\<close>

definition deepcopy_dict :: "'v store \<Rightarrow> addr \<Rightarrow> addr \<times> 'v store" where
  "deepcopy_dict h a = (length (dicts h), h\<lparr>dicts := dicts h @ [dicts h ! a]\<rparr>)"

text \<open>Attribute assignment \<open>obj.k = v\<close>.\<close>

fun set_attr :: "string \<Rightarrow> 'v attr \<Rightarrow> (string \<times> 'v attr) list \<Rightarrow> (string \<times> 'v attr) list" where
  "set_attr k v [] = [(k, v)]"
| "set_attr k v ((k', v') # rest) =
     (if k' = k then (k, v) # rest else (k', v') # set_attr k v rest)"

definition setattr :: "'v store \<Rightarrow> addr \<Rightarrow> string \<Rightarrow> 'v attr \<Rightarrow> 'v store" where
  "setattr h a k v = h\<lparr>objects := (objects h)[a := set_attr k v (objects h ! a)]\<rparr>"

text \<open>
  The search state with references: \<open>retained_model\<close> and \<open>retained_model_params\<close> name
  objects in the store.
\<close>

record cv_refs =
  ref_rmse :: real
  ref_model :: "addr option"
  ref_params :: "addr option"

definition retain_in_store ::
  "'v store \<Rightarrow> cv_refs \<Rightarrow> addr \<Rightarrow> addr \<Rightarrow> real \<Rightarrow> 'v store \<times> cv_refs" where
  "retain_in_store h st test_model hyper_params test_model_rmse =
     (if test_model_rmse < ref_rmse st
      then (case deepcopy_object h test_model of
              (retained, h) \<Rightarrow>
                (case deepcopy_dict h hyper_params of
                   (retained_params, h) \<Rightarrow>
                     (setattr h retained ''x'' ANone,
                      \<lparr>ref_rmse = test_model_rmse, ref_model = Some retained,
                       ref_params = Some retained_params\<rparr>)))
      else (h, st))"

text \<open>
  Reading the store: the addresses an object refers to, the value an attribute denotes,
  and the value-level model and search state that a store and its references stand for.
\<close>

definition refs_of :: "'v store \<Rightarrow> addr \<Rightarrow> addr list" where
  "refs_of h a = concat (map (\<lambda>kv. case snd kv of ARef r \<Rightarrow> [r] | _ \<Rightarrow> []) (objects h ! a))"

datatype 'v aval = VNone | VImm 'v | VArr "real list list"

definition resolve :: "real list list list \<Rightarrow> 'v attr \<Rightarrow> 'v aval" where
  "resolve arrs v = (case v of ANone \<Rightarrow> VNone | AImm c \<Rightarrow> VImm c | ARef a \<Rightarrow> VArr (arrs ! a))"

definition attr_values :: "'v store \<Rightarrow> addr \<Rightarrow> string \<Rightarrow> 'v aval option" where
  "attr_values h a k = map_option (resolve (arrays h)) (map_of (objects h ! a) k)"

definition rilrm_of :: "'v store \<Rightarrow> addr \<Rightarrow> (string \<Rightarrow> 'v aval option) rilrm_scheme" where
  "rilrm_of h a =
     \<lparr>x = (case attr_values h a ''x'' of Some (VArr m) \<Rightarrow> Some m | _ \<Rightarrow> None),
      \<dots> = (attr_values h a)(''x'' := None)\<rparr>"

definition state_of :: "'v store \<Rightarrow> cv_refs \<Rightarrow> (string \<Rightarrow> 'v aval option) cv_state" where
  "state_of h st =
     \<lparr>retained_model_rmse = ref_rmse st,
      retained_model = map_option (rilrm_of h) (ref_model st),
      retained_model_params = map_option ((!) (dicts h)) (ref_params st)\<rparr>"

text \<open>A store is closed at an object when the object and the arrays it refers to exist.\<close>

definition closed_at :: "'v store \<Rightarrow> addr \<Rightarrow> bool" where
  "closed_at h a \<longleftrightarrow> a < length (objects h) \<and> list_all (\<lambda>r. r < length (arrays h)) (refs_of h a)"

text \<open>The relation between an attribute and its deep copy, for arrays allocated from \<open>N\<close> on.\<close>

definition copied :: "nat \<Rightarrow> real list list list \<Rightarrow> string \<times> 'v attr \<Rightarrow> string \<times> 'v attr \<Rightarrow> bool" where
  "copied N arrs kv kv' \<longleftrightarrow>
     fst kv' = fst kv
     \<and> (case snd kv of
          ARef a \<Rightarrow> (case snd kv' of
                      ARef a' \<Rightarrow> N \<le> a' \<and> a' < length arrs \<and> arrs ! a' = arrs ! a
                    | _ \<Rightarrow> False)
        | _ \<Rightarrow> snd kv' = snd kv)"

text \<open>A store with one model object that owns two arrays, and one dict.\<close>

definition store0 :: "real store" where
  "store0 =
     \<lparr>arrays = [[[1, 2], [3, 4]], [[5]]],
      objects = [[(''x'', ARef 0), (''scaler'', ANone), (''coeffs'', ARef 1), (''alpha'', AImm 1)]],
      dicts = [\<lparr>hyper_params.alpha = 1, cutoff_radius = 6, gaussian_params2_num = 10\<rparr>]\<rparr>"

section \<open>A reference collaborator\<close>

text \<open>
  A small, fully executable collaborator on which the functions above can be run: a
  regressor that memorises the target it was trained on and predicts zero on structures it
  has not seen.
\<close>

record memo = rilrm +
  coeffs :: vec

text \<open>
  Modelled from the spec: \<open>rmse\<close>, \<open>average\<close> and \<open>make_yids_for_structure_ids\<close> of
  \<open>para_mlp.utils\<close>, which the sources import but do not contain. \<open>rmse\<close> is the
  root-mean-square error between predicted and expected values over a row set, \<open>average\<close>
  the arithmetic mean, and the row ids of a structure are its energy row followed by a
  fixed number of force rows per structure. \<open>round_to_4\<close> rounds to four decimals. The
  properties below hold for any functions in their place; these only serve to run
  examples.
\<close>

definition rmse_ref :: "vec \<Rightarrow> vec \<Rightarrow> real" where
  "rmse_ref p e = sqrt ((\<Sum>(a, b)\<leftarrow>zip p e. (a - b)\<^sup>2) / real (length p))"

definition average_ref :: "vec \<Rightarrow> real" where
  "average_ref xs = sum_list xs / real (length xs)"

definition round_to_4_ref :: "real \<Rightarrow> real" where
  "round_to_4_ref v = real_of_int (round_even (v * 10000)) / 10000"

definition make_yids_ref :: "nat list \<Rightarrow> nat \<Rightarrow> int \<Rightarrow> bool \<Rightarrow> yids" where
  "make_yids_ref ids n force_id_unit with_force =
     (let f = (if with_force
               then concat (map (\<lambda>i. map (\<lambda>j. n + i * nat force_id_unit + j) [0..<nat force_id_unit]) ids)
               else [])
      in \<lparr>energy = ids, force = f, target = ids @ f\<rparr>)"

definition memo_collab :: "(unit, unit memo_ext) collab" where
  "memo_collab =
     \<lparr>from_dict = (\<lambda>hp. \<lparr>model_params.alpha = hyper_params.alpha hp,
                          cutoff_radius = hyper_params.cutoff_radius hp,
                          gaussian_params2_num = hyper_params.gaussian_params2_num hp,
                          composite_num = 1, feature_type = ''pair'', gtinv_lmax = [],
                          use_gtinv_sym = [], use_force = False, use_spin = False,
                          gaussian_params2_flag = 1, polynomial_model = 1,
                          polynomial_max_order = 1, is_paramagnetic = False,
                          delta_learning = False\<rparr>),
      set_api_params = (\<lambda>mp. mp),
      RILRM = (\<lambda>mp. \<lparr>x = None, coeffs = []\<rparr>),
      make_feature = (\<lambda>m ss make_scaler. Inr (m\<lparr>x := Some (map (\<lambda>s. [real (length (sites s))]) ss)\<rparr>)),
      apply_weight = (\<lambda>m ew fw hw hl n. Inr m),
      train = (\<lambda>m ids tgt. Inr (m\<lparr>coeffs := tgt\<rparr>)),
      predict = (\<lambda>m ss. case ss of None \<Rightarrow> Inr (coeffs m)
                                  | Some ss \<Rightarrow>
                                      Inr (replicate (length ss + sum_list (map (\<lambda>s. length (sites s)) ss)) 0)),
      rmse = rmse_ref,
      average = average_ref,
      round_to_4 = round_to_4_ref,
      make_yids_for_structure_ids = make_yids_ref,
      make_high_energy_index = (\<lambda>file_id cfg n_structure force_id_unit yids_for_kfold. [file_id - 1]),
      shuffle = (\<lambda>n. rev [0..<n]),
      arange_wide = (\<lambda>start stop step. [])\<rparr>"

text \<open>A configuration with a one-point grid, and small data sets.\<close>

definition config0 :: config where
  "config0 =
     \<lparr>cutoff_radius_min = 6, cutoff_radius_max = 6,
      gaussian_params2_num_min = 10, gaussian_params2_num_max = 10,
      alpha = [1 / 100], n_splits = 2, energy_weight = 1, force_weight = 1,
      high_energy_weights = [1], composite_num = 1, feature_type = ''pair'',
      gtinv_lmax = [], use_gtinv_sym = [], use_force = True, use_spin = False,
      gaussian_params2_flag = 1, polynomial_model = 1, polynomial_max_order = 1,
      is_paramagnetic = False, delta_learning = False, model_dir = ''models''\<rparr>"

text \<open>The doubles nearest to 0.4 and to 2.4.\<close>

definition double_0_4 :: real where
  "double_0_4 = 3602879701896397 / 2 ^ 53"

definition double_2_4 :: real where
  "double_2_4 = 5404319552844595 / 2 ^ 51"

definition atom2 :: "structure" where
  "atom2 = \<lparr>sites = [0, 0]\<rparr>"

text \<open>Two structures, two force rows each.\<close>

definition kfold0 :: dataset where
  "kfold0 = \<lparr>structures = [atom2, atom2], target = [2, 4, 1, 1, 3, 3]\<rparr>"

text \<open>Two structures and seven target rows: seven is not a multiple of two.\<close>

definition kfold_odd :: dataset where
  "kfold_odd = \<lparr>structures = [atom2, atom2], target = [2, 4, 1, 1, 3, 3, 5]\<rparr>"

definition test0 :: dataset where
  "test0 = \<lparr>structures = [atom2], target = [4, 0, 0]\<rparr>"

definition yids0 :: yids where
  "yids0 = \<lparr>energy = [0, 1], force = [2, 3, 4, 5], target = [0, 1, 2, 3, 4, 5]\<rparr>"

text \<open>
  A grid of two points, and a table of four candidates with the mean scores 5, 6, 4, 4, each
  candidate's model marked by the candidate's \<open>alpha\<close>.
\<close>

definition grid2 :: param_grid where
  "grid2 = \<lparr>param_grid.cutoff_radius = [6], gaussian_params2_num = [10], alpha = [1 / 100, 1]\<rparr>"

definition grid4 :: "hyper_params list" where
  "grid4 = map (\<lambda>a. \<lparr>hyper_params.alpha = a, cutoff_radius = 6, gaussian_params2_num = 10\<rparr>) [1, 2, 3, 4]"

definition scores_ev :: "hyper_params \<Rightarrow> error + (memo \<times> real)" where
  "scores_ev hp =
     Inr (\<lparr>x = Some [[hyper_params.alpha hp]], coeffs = [hyper_params.alpha hp]\<rparr>,
          if hyper_params.alpha hp = 1 then 5 else if hyper_params.alpha hp = 2 then 6 else 4)"

text \<open>The log entry of a candidate that scores zero on each of two folds.\<close>

definition quiet_log :: "hyper_params \<Rightarrow> candidate_log" where
  "quiet_log hp =
     \<lparr>log_params = hp, log_target = [0, 0], log_target_average = 0, log_target_std_dev = 0,
      log_energy = [0, 0], log_energy_average = 0, log_energy_std_dev = 0,
      log_force = Some ([0, 0], 0, 0)\<rparr>"

text \<open>
  The collaborator whose regressor is off by 2 on every row, and the log entry of one of
  its candidates on two folds of \<open>kfold0\<close>.
\<close>

definition offset_collab :: "(unit, unit memo_ext) collab" where
  "offset_collab = memo_collab\<lparr>train := \<lambda>m ids tgt. Inr (m\<lparr>coeffs := map (\<lambda>v. v + 2) tgt\<rparr>)\<rparr>"

definition offset_log :: "hyper_params \<Rightarrow> candidate_log" where
  "offset_log hp =
     \<lparr>log_params = hp, log_target = [2, 2], log_target_average = 2, log_target_std_dev = 0,
      log_energy = [1000, 1000], log_energy_average = 1000, log_energy_std_dev = 0,
      log_force = Some ([2, 2], 2, 0)\<rparr>"

section \<open>Basic facts\<close>

lemma bindE_Inr_iff: "bindE m f = Inr r \<longleftrightarrow> (\<exists>v. m = Inr v \<and> f v = Inr r)"
  by (cases m) (simp_all add: bindE_def)

lemma bindE_Inl: "bindE (Inl e) f = Inl e"
  by (simp add: bindE_def)

lemma bindE_Inr: "bindE (Inr v) f = f v"
  by (simp add: bindE_def)

lemma dataset_dims_Inr_D:
  assumes "dataset_dims d = Inr (n, fiu, na)"
  shows "n = length (structures d) \<and> structures d \<noteq> [] \<and> na = length (sites (hd (structures d)))"
  using assms by (auto simp: dataset_dims_def Let_def split: if_splits list.splits)

lemma train_and_eval_Inr_D:
  assumes "train_and_eval ext cfg kd td yk = Inr r"
  shows "\<exists>n fiu na hl tgt m0.
           dataset_dims kd = Inr (n, fiu, na)
         \<and> high_energy_override ext cfg td n fiu yk (dataset_weighting cfg n (dataset.target kd))
             = Inr (hl, tgt)
         \<and> select_model ext cfg (kd\<lparr>dataset.target := tgt\<rparr>) hl = Inr m0
         \<and> retrain_and_score ext cfg (kd\<lparr>dataset.target := tgt\<rparr>) td hl n na m0 = Inr r"
  using assms
  by (auto simp: train_and_eval_def Let_def bindE_Inr_iff)

section \<open>Rounding at the values used below\<close>

lemma floor_log2:
  assumes "2 powr real_of_int k \<le> \<bar>v\<bar>" and "\<bar>v\<bar> < 2 powr real_of_int (k + 1)"
  shows "\<lfloor>log 2 \<bar>v\<bar>\<rfloor> = k"
proof -
  have "0 < 2 powr real_of_int k" by simp
  with assms(1) have pos: "0 < \<bar>v\<bar>" by linarith
  have "real_of_int k \<le> log 2 \<bar>v\<bar>" using assms(1) pos by (simp add: le_log_iff)
  moreover have "log 2 \<bar>v\<bar> < real_of_int (k + 1)" using assms(2) pos by (simp add: log_less_iff)
  ultimately show ?thesis by (simp add: floor_eq_iff)
qed

lemma fround_at:
  assumes "2 powr real_of_int k \<le> \<bar>v\<bar>" and "\<bar>v\<bar> < 2 powr real_of_int (k + 1)"
  shows "fround v = real_of_int (round_even (v / 2 powr real_of_int (max (k - 52) (- 1074))))
                    * 2 powr real_of_int (max (k - 52) (- 1074))"
proof -
  have "0 < 2 powr real_of_int k" by simp
  with assms(1) have "v \<noteq> 0" by auto
  then show ?thesis by (simp add: fround_def ulp_def floor_log2 [OF assms])
qed

lemma fround_values:
  "fround 0 = 0" "fround 1 = 1" "fround (1 / 2) = 1 / 2" "fround (3 / 2) = 3 / 2"
  "fround 3 = 3" "fround (- 2) = - 2" "fround (- 4) = - 4"
proof -
  show "fround 0 = 0" by (simp add: fround_def)
  show "fround 1 = 1" using fround_at [of 0 1] by (simp add: round_even_def powr_minus)
  show "fround (1 / 2) = 1 / 2"
    using fround_at [of "- 1" "1 / 2"] by (simp add: round_even_def powr_minus)
  show "fround (3 / 2) = 3 / 2"
    using fround_at [of 0 "3 / 2"] by (simp add: round_even_def powr_minus)
  show "fround 3 = 3" using fround_at [of 1 3] by (simp add: round_even_def powr_minus)
  show "fround (- 2) = - 2" using fround_at [of 1 "- 2"] by (simp add: round_even_def powr_minus)
  show "fround (- 4) = - 4" using fround_at [of 2 "- 4"] by (simp add: round_even_def powr_minus)
qed

text \<open>
  The difference of the doubles nearest to 2.4 and to 0.4 is \<open>2 - 2 ^ - 53\<close>, halfway
  between two doubles, and rounds to 2.
\<close>

lemma fsub_2_4_0_4: "fsub double_2_4 double_0_4 = 2"
proof -
  have "fround (5404319552844595 / 2 ^ 51 - 3602879701896397 / 2 ^ 53) = 2"
    using fround_at [of 0 "5404319552844595 / 2 ^ 51 - 3602879701896397 / 2 ^ 53"]
    by (simp add: round_even_def powr_minus)
  then show ?thesis by (simp add: fsub_def double_0_4_def double_2_4_def)
qed

text \<open>Unfolding rules that run the functions on the reference collaborator.\<close>

lemmas grid_defs =
  make_param_grid_def fsub_def fdiv_def fround_values py_int_def linspace_def arange_def
  int64_def bindE_def Let_def upt_rec

lemmas run_defs =
  cross_validate_def search_def eval_candidate_def candidate_scores_def logged_candidates_def
  score_fold_def retain_def KFold_def KFold_split_def fold_sizes_def take_rows_def stdev_def
  average_ref_def round_to_4_ref_def round_even_def make_yids_ref_def dataset_dims_def kfold0_def
  atom2_def config0_def grid2_def ParameterGrid_def upt_rec arrange_model_from_hyper_params_def
  memo_collab_def bindE_def rmse_ref_def Let_def

lemmas eval_defs =
  train_and_eval_def dataset_dims_def kfold0_def kfold_odd_def atom2_def config0_def
  dataset_weighting_def high_energy_override_def select_model_def grid_defs
  dont_cross_validate_def ParameterGrid_getitem_def ParameterGrid_def retrain_and_score_def
  arrange_model_from_hyper_params_def memo_collab_def test0_def rmse_ref_def

section \<open>The parameter grid\<close>

lemma linspace_nonneg:
  assumes "0 \<le> num"
  shows "\<exists>rs. linspace start stop num = Inr rs \<and> length rs = nat num \<and>
     (\<forall>i<length rs. rs ! i = (if num = 1 then start
                               else start + real i * ((stop - start) / real (nat num - 1))))"
  using assms by (auto simp: linspace_def)

lemma arange_nth:
  assumes "int64 start" and "int64 stop" and "int64 step"
    and "i < length (arange wide start stop step)"
  shows "arange wide start stop step ! i = start + step * int i"
  using assms by (simp add: arange_def)

lemma arange5_mem:
  assumes "int64 lo" and "int64 (hi + 5)"
  shows "v \<in> set (arange wide lo (hi + 5) 5) \<longleftrightarrow> (\<exists>k::nat. v = lo + 5 * int k \<and> v < hi + 5)"
proof -
  have five: "int64 5" by (simp add: int64_def)
  have ar: "arange wide lo (hi + 5) 5
              = map (\<lambda>i. lo + 5 * int i) [0..<nat \<lceil>real_of_int (hi + 5 - lo) / real_of_int 5\<rceil>]"
    using assms five by (simp add: arange_def)
  have bound: "k < nat \<lceil>real_of_int (hi + 5 - lo) / real_of_int 5\<rceil> \<longleftrightarrow> lo + 5 * int k < hi + 5"
    for k :: nat
  proof -
    have "k < nat \<lceil>real_of_int (hi + 5 - lo) / real_of_int 5\<rceil>
            \<longleftrightarrow> int k < \<lceil>real_of_int (hi + 5 - lo) / real_of_int 5\<rceil>"
      by linarith
    also have "\<dots> \<longleftrightarrow> real_of_int (int k) < real_of_int (hi + 5 - lo) / real_of_int 5"
      by (simp add: less_ceiling_iff)
    also have "\<dots> \<longleftrightarrow> lo + 5 * int k < hi + 5"
      by (simp add: field_simps) linarith
    finally show ?thesis .
  qed
  show ?thesis
  proof
    assume "v \<in> set (arange wide lo (hi + 5) 5)"
    then obtain k where "k < nat \<lceil>real_of_int (hi + 5 - lo) / real_of_int 5\<rceil>" "v = lo + 5 * int k"
      unfolding ar by auto
    with bound show "\<exists>k::nat. v = lo + 5 * int k \<and> v < hi + 5" by blast
  next
    assume "\<exists>k::nat. v = lo + 5 * int k \<and> v < hi + 5"
    then obtain k :: nat where k: "v = lo + 5 * int k" "v < hi + 5" by blast
    with bound have "k < nat \<lceil>real_of_int (hi + 5 - lo) / real_of_int 5\<rceil>" by simp
    with k(1) show "v \<in> set (arange wide lo (hi + 5) 5)" unfolding ar by auto
  qed
qed

text \<open>
  Claim C3, as amended. Let the radius count be \<open>int((cutoff_radius_max -
  cutoff_radius_min) / 2.0) + 1\<close> as the program computes it, the difference and its half
  rounded to doubles. Whenever the difference is finite, the count is not negative and the
  bounds of the count dimension fit 64-bit integers, \<open>make_param_grid\<close> returns a grid. Its
  radius dimension has exactly that many candidates, evenly spaced from \<open>cutoff_radius_min\<close>
  to \<open>cutoff_radius_max\<close> (the single candidate is \<open>cutoff_radius_min\<close> when the count is
  one). Its count dimension reads \<open>gaussian_params2_num_min + 5 i\<close> at position \<open>i\<close> and
  holds exactly the values of this form below \<open>gaussian_params2_num_max + 5\<close>. Its
  regularization dimension is the configured \<open>alpha\<close>.
\<close>

theorem make_param_grid_dims:
  assumes "\<bar>fsub (cutoff_radius_max cfg) (cutoff_radius_min cfg)\<bar> < 2 ^ 1024"
    and "0 \<le> py_int (fdiv (fsub (cutoff_radius_max cfg) (cutoff_radius_min cfg)) 2) + 1"
    and "int64 (gaussian_params2_num_min cfg)"
    and "int64 (gaussian_params2_num_max cfg + 5)"
  shows "\<exists>g. make_param_grid ext cfg = Inr g
    \<and> int (length (param_grid.cutoff_radius g))
        = py_int (fdiv (fsub (cutoff_radius_max cfg) (cutoff_radius_min cfg)) 2) + 1
    \<and> (\<forall>i<length (param_grid.cutoff_radius g).
          param_grid.cutoff_radius g ! i =
            (if length (param_grid.cutoff_radius g) = 1 then cutoff_radius_min cfg
             else cutoff_radius_min cfg
                  + real i * ((cutoff_radius_max cfg - cutoff_radius_min cfg)
                              / real (length (param_grid.cutoff_radius g) - 1))))
    \<and> (\<forall>i<length (param_grid.gaussian_params2_num g).
          param_grid.gaussian_params2_num g ! i = gaussian_params2_num_min cfg + 5 * int i)
    \<and> (\<forall>v. v \<in> set (param_grid.gaussian_params2_num g)
          \<longleftrightarrow> (\<exists>k::nat. v = gaussian_params2_num_min cfg + 5 * int k
                         \<and> v < gaussian_params2_num_max cfg + 5))
    \<and> param_grid.alpha g = config.alpha cfg"
proof -
  let ?num = "py_int (fdiv (fsub (cutoff_radius_max cfg) (cutoff_radius_min cfg)) 2) + 1"
  let ?ar = "arange (arange_wide ext) (gaussian_params2_num_min cfg)
               (gaussian_params2_num_max cfg + 5) 5"
  note num = assms(2)
  obtain rs where rs: "linspace (cutoff_radius_min cfg) (cutoff_radius_max cfg) ?num = Inr rs"
      "length rs = nat ?num"
      "\<forall>i<length rs. rs ! i = (if ?num = 1 then cutoff_radius_min cfg
          else cutoff_radius_min cfg + real i * ((cutoff_radius_max cfg - cutoff_radius_min cfg) / real (nat ?num - 1)))"
    using linspace_nonneg [OF num] by blast
  let ?g = "\<lparr>param_grid.cutoff_radius = rs, gaussian_params2_num = ?ar,
             alpha = config.alpha cfg\<rparr>"
  have g: "make_param_grid ext cfg = Inr ?g"
    using rs(1) assms(1) by (simp add: make_param_grid_def bindE_def Let_def)
  have len: "int (length rs) = ?num" using rs(2) num by simp
  have one: "length rs = 1 \<longleftrightarrow> ?num = 1" using len by linarith
  have rad: "\<forall>i<length rs. rs ! i = (if length rs = 1 then cutoff_radius_min cfg
       else cutoff_radius_min cfg + real i * ((cutoff_radius_max cfg - cutoff_radius_min cfg) / real (length rs - 1)))"
    using rs(3) one rs(2) by simp
  have five: "int64 5" by (simp add: int64_def)
  have nth: "\<forall>i<length ?ar. ?ar ! i = gaussian_params2_num_min cfg + 5 * int i"
    using arange_nth [OF assms(3,4) five] by blast
  have mem: "\<forall>v. v \<in> set ?ar \<longleftrightarrow> (\<exists>k::nat. v = gaussian_params2_num_min cfg + 5 * int k
                         \<and> v < gaussian_params2_num_max cfg + 5)"
    using arange5_mem [OF assms(3,4)] by blast
  show ?thesis
    using g len rad nth mem by (intro exI [of _ ?g]) simp
qed

theorem make_param_grid_dims_witness:
  "make_param_grid memo_collab
     (config0\<lparr>cutoff_radius_min := double_0_4, cutoff_radius_max := double_2_4,
              gaussian_params2_num_min := 5, gaussian_params2_num_max := 12\<rparr>)
   = Inr \<lparr>param_grid.cutoff_radius = [double_0_4, double_2_4],
          gaussian_params2_num = [5, 10, 15], alpha = [1 / 100]\<rparr>"
proof -
  have half: "fdiv 2 2 = 1" by (simp add: fdiv_def fround_values)
  from make_param_grid_dims [of "config0\<lparr>cutoff_radius_min := double_0_4,
              cutoff_radius_max := double_2_4,
              gaussian_params2_num_min := 5, gaussian_params2_num_max := 12\<rparr>" memo_collab]
  show ?thesis
    by (simp add: config0_def fsub_2_4_0_4 half make_param_grid_def py_int_def linspace_def
          arange_def int64_def bindE_def upt_rec)
qed

text \<open>
  Claim C3 as stated covers every configuration. With a radius span of \<open>-4\<close> the candidate
  count is \<open>int(-2.0) + 1 = -1\<close>, which \<open>np.linspace\<close> rejects: no grid is returned. With
  the bounds 6 and 7 the count is \<open>int(0.5) + 1 = 1\<close> and the one candidate is 6: the radius
  dimension does not reach \<open>cutoff_radius_max\<close>.
\<close>

theorem make_param_grid_raises:
  "make_param_grid memo_collab (config0\<lparr>cutoff_radius_min := 6, cutoff_radius_max := 2\<rparr>)
     = Inl ValueError
   \<and> make_param_grid memo_collab (config0\<lparr>cutoff_radius_min := 6, cutoff_radius_max := 7\<rparr>)
       = Inr \<lparr>param_grid.cutoff_radius = [6], gaussian_params2_num = [10], alpha = [1 / 100]\<rparr>"
  by (simp add: config0_def grid_defs)

section \<open>The choice between the fast path and the search\<close>

text \<open>
  Claim C2. Once the grid is built, \<open>train_and_eval\<close> constructs the single candidate
  directly, without \<open>cross_validate\<close>, exactly when every dimension of the grid has one
  candidate value; in every other case its model is the one that \<open>cross_validate\<close> returns
  on that grid.
\<close>

theorem fast_path_iff_single_point:
  assumes "make_param_grid ext cfg = Inr g"
  shows "(dont_cross_validate g \<longleftrightarrow>
            length (param_grid.cutoff_radius g) = 1
            \<and> length (param_grid.gaussian_params2_num g) = 1
            \<and> length (param_grid.alpha g) = 1)
       \<and> (dont_cross_validate g \<longrightarrow>
            select_model ext cfg d hl
              = Inr (arrange_model_from_hyper_params ext
                       \<lparr>hyper_params.alpha = hd (param_grid.alpha g),
                        cutoff_radius = hd (param_grid.cutoff_radius g),
                        gaussian_params2_num = hd (param_grid.gaussian_params2_num g)\<rparr> cfg))
       \<and> (\<not> dont_cross_validate g \<longrightarrow>
            select_model ext cfg d hl
              = bindE (cross_validate ext cfg g d hl) (\<lambda>found. Inr (best_model found)))"
proof -
  have dcv: "dont_cross_validate g \<longleftrightarrow>
            length (param_grid.cutoff_radius g) = 1
            \<and> length (param_grid.gaussian_params2_num g) = 1
            \<and> length (param_grid.alpha g) = 1"
    by (simp add: dont_cross_validate_def)
  have fast: "select_model ext cfg d hl
              = Inr (arrange_model_from_hyper_params ext
                       \<lparr>hyper_params.alpha = hd (param_grid.alpha g),
                        cutoff_radius = hd (param_grid.cutoff_radius g),
                        gaussian_params2_num = hd (param_grid.gaussian_params2_num g)\<rparr> cfg)"
    if "dont_cross_validate g"
  proof -
    from that dcv obtain a r k where "param_grid.alpha g = [a]" "param_grid.cutoff_radius g = [r]"
      "param_grid.gaussian_params2_num g = [k]"
      by (auto simp: length_Suc_conv)
    then have "ParameterGrid g = Inr [\<lparr>hyper_params.alpha = hd (param_grid.alpha g),
                        cutoff_radius = hd (param_grid.cutoff_radius g),
                        gaussian_params2_num = hd (param_grid.gaussian_params2_num g)\<rparr>]"
      by (simp add: ParameterGrid_def)
    with that assms show ?thesis
      by (simp add: select_model_def bindE_def ParameterGrid_getitem_def)
  qed
  have slow: "select_model ext cfg d hl
                = bindE (cross_validate ext cfg g d hl) (\<lambda>found. Inr (best_model found))"
    if "\<not> dont_cross_validate g"
    using that assms by (simp add: select_model_def bindE_def)
  from dcv fast slow show ?thesis by blast
qed

theorem fast_path_iff_single_point_witness:
  "make_param_grid memo_collab config0
     = Inr \<lparr>param_grid.cutoff_radius = [6], gaussian_params2_num = [10], alpha = [1 / 100]\<rparr>
   \<and> select_model memo_collab config0 kfold0 None = Inr \<lparr>x = None, coeffs = []\<rparr>
   \<and> make_param_grid memo_collab (config0\<lparr>config.alpha := [1 / 100, 1]\<rparr>) = Inr grid2
   \<and> select_model memo_collab (config0\<lparr>config.alpha := [1 / 100, 1]\<rparr>) kfold0 None
       = Inr \<lparr>x = None, coeffs = [2, 4, 1, 1, 3, 3]\<rparr>"
proof -
  have g1: "make_param_grid memo_collab config0
     = Inr \<lparr>param_grid.cutoff_radius = [6], gaussian_params2_num = [10], alpha = [1 / 100]\<rparr>"
    by (simp add: config0_def memo_collab_def grid_defs)
  have g2: "make_param_grid memo_collab (config0\<lparr>config.alpha := [1 / 100, 1]\<rparr>) = Inr grid2"
    by (simp add: config0_def memo_collab_def grid2_def grid_defs)
  have s1: "select_model memo_collab config0 kfold0 None = Inr \<lparr>x = None, coeffs = []\<rparr>"
    by (simp add: eval_defs)
  have s2: "select_model memo_collab (config0\<lparr>config.alpha := [1 / 100, 1]\<rparr>) kfold0 None
              = Inr \<lparr>x = None, coeffs = [2, 4, 1, 1, 3, 3]\<rparr>"
    by (simp add: select_model_def dont_cross_validate_def grid_defs run_defs)
  from fast_path_iff_single_point [OF g1, of kfold0 None]
    fast_path_iff_single_point [OF g2, of kfold0 None] g1 g2 s1 s2
  show ?thesis by blast
qed

section \<open>Weighting of the target\<close>

lemma dataset_weighting_append:
  "dataset_weighting cfg n tgt =
     (if energy_weight cfg \<noteq> 1 then map (\<lambda>v. v * energy_weight cfg) (take n tgt) else take n tgt)
     @ (if force_weight cfg \<noteq> 1 then map (\<lambda>v. v * force_weight cfg) (drop n tgt) else drop n tgt)"
proof (cases "n \<le> length tgt")
  case True
  then have "length (take n tgt) = n" by simp
  then show ?thesis by (simp add: dataset_weighting_def Let_def)
next
  case False
  then have "take n tgt = tgt" "drop n tgt = []" by simp_all
  then show ?thesis by (simp add: dataset_weighting_def Let_def)
qed

lemma take_drop_blocks:
  assumes "length a = length (take n tgt)" and "length b = length (drop n tgt)"
  shows "take n (a @ b) = a \<and> drop n (a @ b) = b"
proof (cases "n \<le> length tgt")
  case True
  with assms have "length a = n" by simp
  then show ?thesis by simp
next
  case False
  with assms have "length a < n" "b = []" by simp_all
  then show ?thesis by simp
qed

lemma retrain_and_score_target:
  assumes "retrain_and_score ext cfg kd td hl n na m0 = Inr r"
  shows "kfold_target r = dataset.target kd
     \<and> (\<exists>m. train ext m [0..<length (dataset.target kd)] (dataset.target kd) = Inr (model r))"
  using assms
  by (auto simp: retrain_and_score_def Let_def bindE_Inr_iff)

text \<open>
  Claim C6. With \<open>energy_weight = 1\<close> and \<open>force_weight = 1\<close> the dataset-level weighting
  returns the target unchanged. In general the energy block (the first \<open>n_kfold_structure\<close>
  rows) is scaled by \<open>energy_weight\<close> only when that weight is not 1, the force block (the
  remaining rows) by \<open>force_weight\<close> only when that weight is not 1, and the length of the
  target is kept. \<open>train_and_eval\<close> applies this step to the target of the k-fold pool with
  the number of its structures, hands the result to the high-energy overrides, and keeps
  what they return as the pool's target: the returned model is trained on it. When the
  overrides are skipped the pool's target after the run is the weighted target, and with
  both weights 1 it is the target the run started with.
\<close>

theorem dataset_weighting_blocks:
  "(energy_weight cfg = 1 \<and> force_weight cfg = 1 \<longrightarrow> dataset_weighting cfg n tgt = tgt)
   \<and> take n (dataset_weighting cfg n tgt)
       = (if energy_weight cfg \<noteq> 1 then map (\<lambda>v. v * energy_weight cfg) (take n tgt) else take n tgt)
   \<and> drop n (dataset_weighting cfg n tgt)
       = (if force_weight cfg \<noteq> 1 then map (\<lambda>v. v * force_weight cfg) (drop n tgt) else drop n tgt)
   \<and> length (dataset_weighting cfg n tgt) = length tgt
   \<and> (train_and_eval ext cfg kd td yk = Inr r \<longrightarrow>
        (\<exists>fiu na hl m.
            dataset_dims kd = Inr (length (structures kd), fiu, na)
          \<and> high_energy_override ext cfg td (length (structures kd)) fiu yk
               (dataset_weighting cfg (length (structures kd)) (dataset.target kd))
              = Inr (hl, kfold_target r)
          \<and> train ext m [0..<length (kfold_target r)] (kfold_target r) = Inr (model r))
        \<and> (high_energy_weights cfg = [1] \<longrightarrow>
              kfold_target r
                = dataset_weighting cfg (length (structures kd)) (dataset.target kd))
        \<and> (high_energy_weights cfg = [1] \<and> energy_weight cfg = 1 \<and> force_weight cfg = 1 \<longrightarrow>
              kfold_target r = dataset.target kd))"
proof -
  let ?a = "if energy_weight cfg \<noteq> 1 then map (\<lambda>v. v * energy_weight cfg) (take n tgt) else take n tgt"
  let ?b = "if force_weight cfg \<noteq> 1 then map (\<lambda>v. v * force_weight cfg) (drop n tgt) else drop n tgt"
  have eq: "dataset_weighting cfg n tgt = ?a @ ?b" by (rule dataset_weighting_append)
  have la: "length ?a = length (take n tgt)" and lb: "length ?b = length (drop n tgt)" by simp_all
  have id: "dataset_weighting cfg m t = t" if "energy_weight cfg = 1 \<and> force_weight cfg = 1"
    for m t
    using that by (simp add: dataset_weighting_def)
  have len: "length (dataset_weighting cfg n tgt) = length tgt"
    unfolding eq using la lb by (simp del: length_take length_drop) simp
  have helper: "take n (dataset_weighting cfg n tgt) = ?a \<and> drop n (dataset_weighting cfg n tgt) = ?b"
    using take_drop_blocks [OF la lb] unfolding eq by blast
  have run: "(\<exists>fiu na hl m.
            dataset_dims kd = Inr (length (structures kd), fiu, na)
          \<and> high_energy_override ext cfg td (length (structures kd)) fiu yk
               (dataset_weighting cfg (length (structures kd)) (dataset.target kd))
              = Inr (hl, kfold_target r)
          \<and> train ext m [0..<length (kfold_target r)] (kfold_target r) = Inr (model r))
        \<and> (high_energy_weights cfg = [1] \<longrightarrow>
              kfold_target r
                = dataset_weighting cfg (length (structures kd)) (dataset.target kd))
        \<and> (high_energy_weights cfg = [1] \<and> energy_weight cfg = 1 \<and> force_weight cfg = 1 \<longrightarrow>
              kfold_target r = dataset.target kd)"
    if ok: "train_and_eval ext cfg kd td yk = Inr r"
  proof -
    let ?w = "dataset_weighting cfg (length (structures kd)) (dataset.target kd)"
    from train_and_eval_Inr_D [OF ok] obtain n' fiu na hl tgt' m0 where
      dims: "dataset_dims kd = Inr (n', fiu, na)"
      and ov: "high_energy_override ext cfg td n' fiu yk (dataset_weighting cfg n' (dataset.target kd))
                 = Inr (hl, tgt')"
      and rs: "retrain_and_score ext cfg (kd\<lparr>dataset.target := tgt'\<rparr>) td hl n' na m0 = Inr r"
      by blast
    from dataset_dims_Inr_D [OF dims] have n': "n' = length (structures kd)" by simp
    from retrain_and_score_target [OF rs] obtain m where
      tgt: "kfold_target r = tgt'" and tr: "train ext m [0..<length tgt'] tgt' = Inr (model r)"
      by auto
    have first: "\<exists>fiu na hl m.
            dataset_dims kd = Inr (length (structures kd), fiu, na)
          \<and> high_energy_override ext cfg td (length (structures kd)) fiu yk ?w
              = Inr (hl, kfold_target r)
          \<and> train ext m [0..<length (kfold_target r)] (kfold_target r) = Inr (model r)"
      using dims ov tr unfolding n' tgt by blast
    have skipped: "kfold_target r = ?w" if "high_energy_weights cfg = [1]"
      using that ov unfolding n' tgt by (simp add: high_energy_override_def)
    from first skipped id show ?thesis by simp
  qed
  from id helper len run show ?thesis by blast
qed

theorem dataset_weighting_blocks_witness:
  "dataset_weighting config0 2 [2, 4, 1, 1, 3, 3] = [2, 4, 1, 1, 3, 3]
   \<and> dataset_weighting (config0\<lparr>energy_weight := 3\<rparr>) 2 [2, 4, 1, 1, 3, 3] = [6, 12, 1, 1, 3, 3]
   \<and> dataset_weighting (config0\<lparr>force_weight := 2\<rparr>) 2 [2, 4, 1, 1, 3, 3] = [2, 4, 2, 2, 6, 6]
   \<and> train_and_eval memo_collab (config0\<lparr>energy_weight := 3, force_weight := 2\<rparr>) kfold0 test0 yids0
       = Inr \<lparr>model = \<lparr>x = Some [[2], [2]], coeffs = [6, 12, 2, 2, 6, 6]\<rparr>,
              kfold_target = [6, 12, 2, 2, 6, 6], train_energy = 0, train_force = Some 0,
              test_energy = 2000, test_force = Some 0,
              recorded = [([3, 6], [3, 6], ''models/prediction/kfold_energy.out''),
                          ([0], [2], ''models/prediction/test_energy.out'')]\<rparr>"
proof -
  have run: "train_and_eval memo_collab (config0\<lparr>energy_weight := 3, force_weight := 2\<rparr>) kfold0 test0 yids0
       = Inr \<lparr>model = \<lparr>x = Some [[2], [2]], coeffs = [6, 12, 2, 2, 6, 6]\<rparr>,
              kfold_target = [6, 12, 2, 2, 6, 6], train_energy = 0, train_force = Some 0,
              test_energy = 2000, test_force = Some 0,
              recorded = [([3, 6], [3, 6], ''models/prediction/kfold_energy.out''),
                          ([0], [2], ''models/prediction/test_energy.out'')]\<rparr>"
    by (simp add: eval_defs)
  have blocks: "dataset_weighting config0 2 [2, 4, 1, 1, 3, 3] = [2, 4, 1, 1, 3, 3]
   \<and> dataset_weighting (config0\<lparr>energy_weight := 3\<rparr>) 2 [2, 4, 1, 1, 3, 3] = [6, 12, 1, 1, 3, 3]
   \<and> dataset_weighting (config0\<lparr>force_weight := 2\<rparr>) 2 [2, 4, 1, 1, 3, 3] = [2, 4, 2, 2, 6, 6]"
    by (simp add: dataset_weighting_def config0_def)
  from dataset_weighting_blocks [of "config0\<lparr>energy_weight := 3, force_weight := 2\<rparr>" 2
         "[2, 4, 1, 1, 3, 3]" memo_collab kfold0 test0 yids0] run blocks
  show ?thesis by blast
qed

lemma singleton_weight_iff: "(length ws = 1 \<and> ws ! 0 = (1::real)) \<longleftrightarrow> ws = [1]"
  by (cases ws) auto

text \<open>
  Claim C5. The high-energy branch of \<open>train_and_eval\<close> is skipped, leaving
  \<open>high_energy_index_list\<close> at \<open>None\<close> and the target as it is, if and only if
  \<open>high_energy_weights\<close> is the one-element list \<open>[1.0]\<close>. For every other list (several
  weights all equal to 1, a single weight other than 1, no weight at all) the index sets
  are computed and the override multiplications are run.
\<close>

theorem high_energy_override_skipped_iff:
  "(high_energy_weights cfg = [1] \<longrightarrow>
      high_energy_override ext cfg td n fiu yk tgt = Inr (None, tgt))
   \<and> (high_energy_weights cfg \<noteq> [1] \<longrightarrow>
      high_energy_override ext cfg td n fiu yk tgt =
        bindE (apply_overrides tgt
                 (zip (map (\<lambda>i. make_high_energy_index ext (i + 1) cfg (length (structures td) + n) fiu yk)
                           [0..<length (high_energy_weights cfg)])
                      (high_energy_weights cfg)))
          (\<lambda>t. Inr (Some (map (\<lambda>i. make_high_energy_index ext (i + 1) cfg
                                       (length (structures td) + n) fiu yk)
                               [0..<length (high_energy_weights cfg)]), t)))
   \<and> ((\<exists>t. high_energy_override ext cfg td n fiu yk tgt = Inr (None, t))
        \<longleftrightarrow> high_energy_weights cfg = [1])"
proof -
  have guard: "(length (high_energy_weights cfg) \<noteq> 1 \<or> high_energy_weights cfg ! 0 \<noteq> 1)
                 \<longleftrightarrow> high_energy_weights cfg \<noteq> [1]"
    using singleton_weight_iff [of "high_energy_weights cfg"] by blast
  have skip: "high_energy_override ext cfg td n fiu yk tgt = Inr (None, tgt)"
    if "high_energy_weights cfg = [1]"
    using that by (simp add: high_energy_override_def)
  have run: "high_energy_override ext cfg td n fiu yk tgt =
        bindE (apply_overrides tgt
                 (zip (map (\<lambda>i. make_high_energy_index ext (i + 1) cfg (length (structures td) + n) fiu yk)
                           [0..<length (high_energy_weights cfg)])
                      (high_energy_weights cfg)))
          (\<lambda>t. Inr (Some (map (\<lambda>i. make_high_energy_index ext (i + 1) cfg
                                       (length (structures td) + n) fiu yk)
                               [0..<length (high_energy_weights cfg)]), t))"
    if "high_energy_weights cfg \<noteq> [1]"
    using that guard by (simp add: high_energy_override_def Let_def)
  have "high_energy_override ext cfg td n fiu yk tgt \<noteq> Inr (None, t)"
    if "high_energy_weights cfg \<noteq> [1]" for t
    unfolding run [OF that] by (auto simp: bindE_def split: sum.splits)
  with skip run show ?thesis by blast
qed

theorem high_energy_override_skipped_iff_witness:
  "high_energy_override memo_collab config0 test0 2 2 yids0 [2, 4, 1, 1, 3, 3]
     = Inr (None, [2, 4, 1, 1, 3, 3])
   \<and> high_energy_override memo_collab (config0\<lparr>high_energy_weights := [1, 1]\<rparr>) test0 2 2 yids0
       [2, 4, 1, 1, 3, 3] = Inr (Some [[0], [1]], [2, 4, 1, 1, 3, 3])
   \<and> high_energy_override memo_collab (config0\<lparr>high_energy_weights := [2]\<rparr>) test0 2 2 yids0
       [2, 4, 1, 1, 3, 3] = Inr (Some [[0]], [4, 4, 1, 1, 3, 3])
   \<and> high_energy_override memo_collab (config0\<lparr>high_energy_weights := []\<rparr>) test0 2 2 yids0
       [2, 4, 1, 1, 3, 3] = Inr (Some [], [2, 4, 1, 1, 3, 3])"
  using high_energy_override_skipped_iff [of config0 memo_collab test0 2 2 yids0 "[2, 4, 1, 1, 3, 3]"]
    high_energy_override_skipped_iff [of "config0\<lparr>high_energy_weights := [1, 1]\<rparr>" memo_collab test0 2 2
      yids0 "[2, 4, 1, 1, 3, 3]"]
    high_energy_override_skipped_iff [of "config0\<lparr>high_energy_weights := [2]\<rparr>" memo_collab test0 2 2
      yids0 "[2, 4, 1, 1, 3, 3]"]
  by (simp add: config0_def memo_collab_def high_energy_override_def scale_rows_def bindE_def upt_rec)

section \<open>The shape of the data set\<close>

text \<open>
  Claim C8, as amended. Neither \<open>cross_validate\<close> nor \<open>train_and_eval\<close> compares the target
  length with the structure count. For a data set with at least one structure,
  \<open>force_id_unit\<close> is the floor quotient of the target length by the structure count, minus
  one, whatever the remainder: the rows beyond \<open>n_structures * (force_id_unit + 1)\<close>, fewer
  than \<open>n_structures\<close> of them, are left out of the unit. An empty structure list fails with
  \<open>ZeroDivisionError\<close>.
\<close>

theorem force_id_unit_truncates:
  "(structures d \<noteq> [] \<longrightarrow>
      (\<exists>fiu na. dataset_dims d = Inr (length (structures d), fiu, na)
         \<and> fiu = int (length (dataset.target d)) div int (length (structures d)) - 1
         \<and> int (length (structures d)) * (fiu + 1) \<le> int (length (dataset.target d))
         \<and> int (length (dataset.target d)) < int (length (structures d)) * (fiu + 2)))
   \<and> (structures d = [] \<longrightarrow> dataset_dims d = Inl ZeroDivisionError)"
proof (intro conjI impI)
  assume ne: "structures d \<noteq> []"
  let ?n = "int (length (structures d))" and ?l = "int (length (dataset.target d))"
  have pos: "0 < ?n" using ne by simp
  have eq: "?n * (?l div ?n) + ?l mod ?n = ?l" by simp
  have m: "0 \<le> ?l mod ?n" "?l mod ?n < ?n" using pos by simp_all
  have "?n * (?l div ?n) \<le> ?l" using eq m(1) by linarith
  then have lo: "?n * (?l div ?n - 1 + 1) \<le> ?l" by simp
  have "?n * (?l div ?n - 1 + 2) = ?n * (?l div ?n) + ?n" by (simp add: algebra_simps)
  with eq m(2) have hi: "?l < ?n * (?l div ?n - 1 + 2)" by linarith
  from ne obtain s ss where "structures d = s # ss" by (cases "structures d") auto
  then have "dataset_dims d = Inr (length (structures d), ?l div ?n - 1, length (sites s))"
    by (simp add: dataset_dims_def)
  with lo hi show "\<exists>fiu na. dataset_dims d = Inr (length (structures d), fiu, na)
         \<and> fiu = ?l div ?n - 1 \<and> ?n * (fiu + 1) \<le> ?l \<and> ?l < ?n * (fiu + 2)"
    by blast
next
  assume "structures d = []"
  then show "dataset_dims d = Inl ZeroDivisionError" by (simp add: dataset_dims_def)
qed

theorem force_id_unit_truncates_witness:
  "dataset_dims kfold_odd = Inr (2, 2, 2)
   \<and> dataset_dims (kfold_odd\<lparr>structures := []\<rparr>) = Inl ZeroDivisionError"
  using force_id_unit_truncates [of kfold_odd] force_id_unit_truncates [of "kfold_odd\<lparr>structures := []\<rparr>"]
  by (simp add: dataset_dims_def kfold_odd_def atom2_def)

text \<open>
  Claim C8 as stated asks for a rejection. With two structures and seven target rows the
  unit is \<open>7 // 2 - 1 = 2\<close>, and both the search and the whole of \<open>train_and_eval\<close> run to a
  result.
\<close>

theorem odd_target_length_accepted:
  "length (dataset.target kfold_odd) = 7 \<and> length (structures kfold_odd) = 2
   \<and> dataset_dims kfold_odd = Inr (2, 2, 2)
   \<and> cross_validate memo_collab config0 grid2 kfold_odd None
       = Inr \<lparr>best_model = \<lparr>x = None, coeffs = [2, 4, 1, 1, 3, 3, 5]\<rparr>,
              debug_log =
                [quiet_log \<lparr>hyper_params.alpha = 1 / 100, cutoff_radius = 6,
                            gaussian_params2_num = 10\<rparr>,
                 quiet_log \<lparr>hyper_params.alpha = 1, cutoff_radius = 6,
                            gaussian_params2_num = 10\<rparr>]\<rparr>
   \<and> train_and_eval memo_collab config0 kfold_odd test0 yids0
       = Inr \<lparr>model = \<lparr>x = Some [[2], [2]], coeffs = [2, 4, 1, 1, 3, 3, 5]\<rparr>,
              kfold_target = [2, 4, 1, 1, 3, 3, 5], train_energy = 0, train_force = Some 0,
              test_energy = 2000, test_force = Some 0,
              recorded = [([1, 2], [1, 2], ''models/prediction/kfold_energy.out''),
                          ([0], [2], ''models/prediction/test_energy.out'')]\<rparr>"
proof -
  have "length (dataset.target kfold_odd) = 7 \<and> length (structures kfold_odd) = 2"
    by (simp add: kfold_odd_def)
  moreover have "dataset_dims kfold_odd = Inr (2, 2, 2)"
    by (simp add: dataset_dims_def kfold_odd_def atom2_def)
  moreover have "cross_validate memo_collab config0 grid2 kfold_odd None
       = Inr \<lparr>best_model = \<lparr>x = None, coeffs = [2, 4, 1, 1, 3, 3, 5]\<rparr>,
              debug_log =
                [quiet_log \<lparr>hyper_params.alpha = 1 / 100, cutoff_radius = 6,
                            gaussian_params2_num = 10\<rparr>,
                 quiet_log \<lparr>hyper_params.alpha = 1, cutoff_radius = 6,
                            gaussian_params2_num = 10\<rparr>]\<rparr>"
    by (simp add: run_defs kfold_odd_def quiet_log_def)
  moreover have "train_and_eval memo_collab config0 kfold_odd test0 yids0
       = Inr \<lparr>model = \<lparr>x = Some [[2], [2]], coeffs = [2, 4, 1, 1, 3, 3, 5]\<rparr>,
              kfold_target = [2, 4, 1, 1, 3, 3, 5], train_energy = 0, train_force = Some 0,
              test_energy = 2000, test_force = Some 0,
              recorded = [([1, 2], [1, 2], ''models/prediction/kfold_energy.out''),
                          ([0], [2], ''models/prediction/test_energy.out'')]\<rparr>"
    by (simp add: eval_defs)
  ultimately show ?thesis by blast
qed

section \<open>The retained result\<close>

lemma cv_loop_Cons_Inr:
  assumes "cv_loop ev (hp # rest) st = Inr st'"
  obtains tm s where "ev hp = Inr (tm, s)"
    and "retained_model_params (retain st tm hp s) \<noteq> None"
    and "cv_loop ev rest (retain st tm hp s) = Inr st'"
  using assms by (auto simp: bindE_Inr_iff Let_def split: option.splits)

lemma cv_loop_first_minimum:
  assumes "cv_loop ev grid st = Inr st'"
  shows "(st' = st \<and> (\<forall>h\<in>set grid. \<exists>tm' s'. ev h = Inr (tm', s') \<and> \<not> s' < retained_model_rmse st))
       \<or> (\<exists>pre hp post tm s. grid = pre @ hp # post \<and> ev hp = Inr (tm, s)
            \<and> st' = \<lparr>retained_model_rmse = s, retained_model = Some (tm\<lparr>x := None\<rparr>),
                      retained_model_params = Some hp\<rparr>
            \<and> s < retained_model_rmse st
            \<and> (\<forall>h\<in>set pre. \<exists>tm' s'. ev h = Inr (tm', s') \<and> s < s')
            \<and> (\<forall>h\<in>set post. \<exists>tm' s'. ev h = Inr (tm', s') \<and> s \<le> s'))"
  using assms
proof (induction grid arbitrary: st)
  case Nil
  then show ?case by simp
next
  case (Cons hp rest)
  from Cons.prems obtain tm s where ev: "ev hp = Inr (tm, s)"
    and loop: "cv_loop ev rest (retain st tm hp s) = Inr st'"
    by (rule cv_loop_Cons_Inr)
  let ?st1 = "retain st tm hp s"
  note IH = Cons.IH [OF loop]
  show ?case
  proof (cases "s < retained_model_rmse st")
    case True
    then have st1: "?st1 = \<lparr>retained_model_rmse = s, retained_model = Some (tm\<lparr>x := None\<rparr>),
                      retained_model_params = Some hp\<rparr>"
      by (simp add: retain_def)
    from IH show ?thesis
    proof
      assume A: "st' = ?st1 \<and> (\<forall>h\<in>set rest. \<exists>tm' s'. ev h = Inr (tm', s') \<and> \<not> s' < retained_model_rmse ?st1)"
      then have "\<forall>h\<in>set rest. \<exists>tm' s'. ev h = Inr (tm', s') \<and> s \<le> s'"
        using st1 by (fastforce simp: not_less)
      with A st1 ev True have "hp # rest = [] @ hp # rest \<and> ev hp = Inr (tm, s)
            \<and> st' = \<lparr>retained_model_rmse = s, retained_model = Some (tm\<lparr>x := None\<rparr>),
                      retained_model_params = Some hp\<rparr>
            \<and> s < retained_model_rmse st
            \<and> (\<forall>h\<in>set []. \<exists>tm' s'. ev h = Inr (tm', s') \<and> s < s')
            \<and> (\<forall>h\<in>set rest. \<exists>tm' s'. ev h = Inr (tm', s') \<and> s \<le> s')"
        by simp
      then show ?thesis by blast
    next
      assume "\<exists>pre hq post tq sq. rest = pre @ hq # post \<and> ev hq = Inr (tq, sq)
            \<and> st' = \<lparr>retained_model_rmse = sq, retained_model = Some (tq\<lparr>x := None\<rparr>),
                      retained_model_params = Some hq\<rparr>
            \<and> sq < retained_model_rmse ?st1
            \<and> (\<forall>h\<in>set pre. \<exists>tm' s'. ev h = Inr (tm', s') \<and> sq < s')
            \<and> (\<forall>h\<in>set post. \<exists>tm' s'. ev h = Inr (tm', s') \<and> sq \<le> s')"
      then obtain pre hq post tq sq where B: "rest = pre @ hq # post" "ev hq = Inr (tq, sq)"
          "st' = \<lparr>retained_model_rmse = sq, retained_model = Some (tq\<lparr>x := None\<rparr>),
                      retained_model_params = Some hq\<rparr>"
          "sq < retained_model_rmse ?st1"
          "\<forall>h\<in>set pre. \<exists>tm' s'. ev h = Inr (tm', s') \<and> sq < s'"
          "\<forall>h\<in>set post. \<exists>tm' s'. ev h = Inr (tm', s') \<and> sq \<le> s'"
        by blast
      from B(4) st1 have lt: "sq < s" by simp
      with True have lt': "sq < retained_model_rmse st" by simp
      have "hp # rest = (hp # pre) @ hq # post" using B(1) by simp
      moreover have "\<forall>h\<in>set (hp # pre). \<exists>tm' s'. ev h = Inr (tm', s') \<and> sq < s'"
        using B(5) ev lt by simp
      ultimately show ?thesis using B(2,3,6) lt' by blast
    qed
  next
    case False
    then have st1: "?st1 = st" by (simp add: retain_def)
    from IH show ?thesis
    proof
      assume A: "st' = ?st1 \<and> (\<forall>h\<in>set rest. \<exists>tm' s'. ev h = Inr (tm', s') \<and> \<not> s' < retained_model_rmse ?st1)"
      with st1 ev False show ?thesis by simp
    next
      assume "\<exists>pre hq post tq sq. rest = pre @ hq # post \<and> ev hq = Inr (tq, sq)
            \<and> st' = \<lparr>retained_model_rmse = sq, retained_model = Some (tq\<lparr>x := None\<rparr>),
                      retained_model_params = Some hq\<rparr>
            \<and> sq < retained_model_rmse ?st1
            \<and> (\<forall>h\<in>set pre. \<exists>tm' s'. ev h = Inr (tm', s') \<and> sq < s')
            \<and> (\<forall>h\<in>set post. \<exists>tm' s'. ev h = Inr (tm', s') \<and> sq \<le> s')"
      then obtain pre hq post tq sq where B: "rest = pre @ hq # post" "ev hq = Inr (tq, sq)"
          "st' = \<lparr>retained_model_rmse = sq, retained_model = Some (tq\<lparr>x := None\<rparr>),
                      retained_model_params = Some hq\<rparr>"
          "sq < retained_model_rmse ?st1"
          "\<forall>h\<in>set pre. \<exists>tm' s'. ev h = Inr (tm', s') \<and> sq < s'"
          "\<forall>h\<in>set post. \<exists>tm' s'. ev h = Inr (tm', s') \<and> sq \<le> s'"
        by blast
      from B(4) st1 have lt': "sq < retained_model_rmse st" by simp
      with False have lt: "sq < s" by simp
      have "hp # rest = (hp # pre) @ hq # post" using B(1) by simp
      moreover have "\<forall>h\<in>set (hp # pre). \<exists>tm' s'. ev h = Inr (tm', s') \<and> sq < s'"
        using B(5) ev lt by simp
      ultimately show ?thesis using B(2,3,6) lt' by blast
    qed
  qed
qed

lemma search_Inr_iff:
  "search ev grid = Inr m \<longleftrightarrow>
     (\<exists>st hp. cv_loop ev grid \<lparr>retained_model_rmse = 10 ^ 10, retained_model = None,
                               retained_model_params = None\<rparr> = Inr st
        \<and> retained_model_params st = Some hp \<and> retained_model st = Some m)"
  by (auto simp: search_def bindE_Inr_iff split: option.splits)

text \<open>
  Claim C1. When the search returns, the retained triple (mean score, model snapshot, hyper
  parameters) is that of the first candidate reaching the least mean combined RMSE: every
  candidate met before it scored strictly higher, and every candidate met after it scored
  at least as much, so a later tie does not replace it. On the scores \<open>[5, 6, 4, 4]\<close> the
  third candidate is returned.
\<close>

theorem retained_is_first_minimum:
  assumes "search ev grid = Inr m"
  shows "\<exists>pre hp post tm s.
           grid = pre @ hp # post \<and> ev hp = Inr (tm, s) \<and> m = tm\<lparr>x := None\<rparr>
         \<and> cv_loop ev grid \<lparr>retained_model_rmse = 10 ^ 10, retained_model = None,
                             retained_model_params = None\<rparr>
             = Inr \<lparr>retained_model_rmse = s, retained_model = Some m, retained_model_params = Some hp\<rparr>
         \<and> s < 10 ^ 10
         \<and> (\<forall>h\<in>set pre. \<exists>tm' s'. ev h = Inr (tm', s') \<and> s < s')
         \<and> (\<forall>h\<in>set post. \<exists>tm' s'. ev h = Inr (tm', s') \<and> s \<le> s')"
proof -
  let ?init = "\<lparr>retained_model_rmse = 10 ^ 10, retained_model = None :: 'a rilrm_scheme option,
                 retained_model_params = None\<rparr>"
  from assms obtain st hp0 where loop: "cv_loop ev grid ?init = Inr st"
    and bound: "retained_model_params st = Some hp0" "retained_model st = Some m"
    unfolding search_Inr_iff by blast
  from cv_loop_first_minimum [OF loop] show ?thesis
  proof
    assume "st = ?init \<and> (\<forall>h\<in>set grid. \<exists>tm' s'. ev h = Inr (tm', s')
              \<and> \<not> s' < retained_model_rmse ?init)"
    with bound(1) show ?thesis by simp
  next
    assume "\<exists>pre hp post tm s. grid = pre @ hp # post \<and> ev hp = Inr (tm, s)
            \<and> st = \<lparr>retained_model_rmse = s, retained_model = Some (tm\<lparr>x := None\<rparr>),
                      retained_model_params = Some hp\<rparr>
            \<and> s < retained_model_rmse ?init
            \<and> (\<forall>h\<in>set pre. \<exists>tm' s'. ev h = Inr (tm', s') \<and> s < s')
            \<and> (\<forall>h\<in>set post. \<exists>tm' s'. ev h = Inr (tm', s') \<and> s \<le> s')"
    then obtain pre hp post tm s where B: "grid = pre @ hp # post" "ev hp = Inr (tm, s)"
        "st = \<lparr>retained_model_rmse = s, retained_model = Some (tm\<lparr>x := None\<rparr>),
                      retained_model_params = Some hp\<rparr>"
        "s < retained_model_rmse ?init"
        "\<forall>h\<in>set pre. \<exists>tm' s'. ev h = Inr (tm', s') \<and> s < s'"
        "\<forall>h\<in>set post. \<exists>tm' s'. ev h = Inr (tm', s') \<and> s \<le> s'"
      by blast
    from B(3) bound(2) have m: "m = tm\<lparr>x := None\<rparr>" by simp
    from B(4) have s: "s < 10 ^ 10" by simp
    from loop B(3) m have "cv_loop ev grid ?init
        = Inr \<lparr>retained_model_rmse = s, retained_model = Some m, retained_model_params = Some hp\<rparr>"
      by simp
    with B(1,2,5,6) m s show ?thesis by blast
  qed
qed

theorem retained_is_first_minimum_witness:
  "map (\<lambda>hp. map_sum id snd (scores_ev hp)) grid4 = [Inr 5, Inr 6, Inr 4, Inr 4]
   \<and> search scores_ev grid4 = Inr \<lparr>x = None, coeffs = [3]\<rparr>
   \<and> cv_loop scores_ev grid4 \<lparr>retained_model_rmse = 10 ^ 10, retained_model = None,
                                  retained_model_params = None\<rparr>
       = Inr \<lparr>retained_model_rmse = 4, retained_model = Some \<lparr>x = None, coeffs = [3]\<rparr>,
              retained_model_params =
                Some \<lparr>hyper_params.alpha = 3, cutoff_radius = 6, gaussian_params2_num = 10\<rparr>\<rparr>"
proof -
  have run: "search scores_ev grid4 = Inr \<lparr>x = None, coeffs = [3]\<rparr>"
    by (simp add: search_def grid4_def scores_ev_def retain_def bindE_def)
  from retained_is_first_minimum [OF run] show ?thesis
    by (simp add: search_def grid4_def scores_ev_def retain_def bindE_def)
qed

lemma search_Inr_D:
  assumes "search ev grid = Inr m"
  shows "grid \<noteq> [] \<and> (\<exists>hp\<in>set grid. \<exists>tm s. ev hp = Inr (tm, s) \<and> s < 10 ^ 10)"
proof -
  let ?init = "\<lparr>retained_model_rmse = 10 ^ 10, retained_model = None :: 'a rilrm_scheme option,
                 retained_model_params = None\<rparr>"
  from assms obtain st hp0 where loop: "cv_loop ev grid ?init = Inr st"
    and bound: "retained_model_params st = Some hp0"
    unfolding search_Inr_iff by blast
  from cv_loop_first_minimum [OF loop] bound show ?thesis
    by (elim disjE) auto
qed

lemma search_unbound:
  assumes "\<forall>hp\<in>set grid. \<exists>tm s. ev hp = Inr (tm, s) \<and> \<not> s < 10 ^ 10"
  shows "search ev grid = Inl UnboundLocalError"
proof (cases grid)
  case Nil
  then show ?thesis by (simp add: search_def bindE_def)
next
  case (Cons hp rest)
  with assms obtain tm s where "ev hp = Inr (tm, s)" "\<not> s < 10 ^ 10" by auto
  with Cons show ?thesis by (simp add: search_def bindE_def retain_def)
qed

lemma ParameterGrid_Inr_nonempty:
  assumes "ParameterGrid g = Inr grid"
  shows "grid \<noteq> []"
proof -
  from assms obtain a as r rs k ks where "param_grid.alpha g = a # as"
    "param_grid.cutoff_radius g = r # rs" "param_grid.gaussian_params2_num g = k # ks"
    by (auto simp: ParameterGrid_def neq_Nil_conv split: if_splits)
  with assms show ?thesis by (auto simp: ParameterGrid_def)
qed

lemma cross_validate_Inr_D:
  assumes "cross_validate ext cfg g d hl = Inr found"
  shows "\<exists>n fiu na grid.
           dataset_dims d = Inr (n, fiu, na) \<and> ParameterGrid g = Inr grid
         \<and> search (eval_candidate ext cfg d hl n fiu na) grid = Inr (best_model found)
         \<and> debug_log found = logged_candidates (candidate_scores ext cfg d hl n fiu na) grid"
  using assms by (auto simp: cross_validate_def bindE_Inr_iff)

lemma eval_candidate_Inr_D:
  assumes "eval_candidate ext cfg d hl n fiu na hp = Inr (tm, s)"
  shows "\<exists>lg. candidate_scores ext cfg d hl n fiu na hp = Inr (tm, s, lg)"
  using assms by (auto simp: eval_candidate_def bindE_Inr_iff)

text \<open>
  Claim C10, as amended. \<open>cross_validate\<close> starts from the sentinel \<open>1e10\<close>. If it returns a
  model, the grid is not empty and some candidate has a mean combined RMSE strictly below
  \<open>1e10\<close>. If the data set has a structure, every dimension of the grid has a candidate and
  every candidate of the grid evaluates to a mean that is not below \<open>1e10\<close>, it fails with
  \<open>UnboundLocalError\<close>. A grid with an empty dimension does not reach the loop:
  \<open>ParameterGrid\<close> rejects it with \<open>ValueError\<close>.
\<close>

theorem cross_validate_sentinel:
  "(cross_validate ext cfg g d hl = Inr found \<longrightarrow>
      (\<exists>grid n fiu na. ParameterGrid g = Inr grid \<and> grid \<noteq> []
         \<and> dataset_dims d = Inr (n, fiu, na)
         \<and> (\<exists>hp\<in>set grid. \<exists>tm s.
               eval_candidate ext cfg d hl n fiu na hp = Inr (tm, s) \<and> s < 10 ^ 10)))
   \<and> (dataset_dims d = Inr (n, fiu, na) \<and> ParameterGrid g = Inr grid
      \<and> (\<forall>hp\<in>set grid. \<exists>tm s.
            eval_candidate ext cfg d hl n fiu na hp = Inr (tm, s) \<and> \<not> s < 10 ^ 10)
      \<longrightarrow> cross_validate ext cfg g d hl = Inl UnboundLocalError)
   \<and> (dataset_dims d = Inr (n, fiu, na)
      \<and> (param_grid.cutoff_radius g = [] \<or> param_grid.gaussian_params2_num g = []
           \<or> param_grid.alpha g = [])
      \<longrightarrow> cross_validate ext cfg g d hl = Inl ValueError)"
proof (intro conjI impI)
  assume run: "cross_validate ext cfg g d hl = Inr found"
  from cross_validate_Inr_D [OF run] obtain n' fiu' na' grid' where
    dims: "dataset_dims d = Inr (n', fiu', na')" and grid: "ParameterGrid g = Inr grid'"
    and s: "search (eval_candidate ext cfg d hl n' fiu' na') grid' = Inr (best_model found)"
    by blast
  from search_Inr_D [OF s] dims grid
  show "\<exists>grid n fiu na. ParameterGrid g = Inr grid \<and> grid \<noteq> []
         \<and> dataset_dims d = Inr (n, fiu, na)
         \<and> (\<exists>hp\<in>set grid. \<exists>tm s.
               eval_candidate ext cfg d hl n fiu na hp = Inr (tm, s) \<and> s < 10 ^ 10)"
    by blast
next
  assume "dataset_dims d = Inr (n, fiu, na) \<and> ParameterGrid g = Inr grid
      \<and> (\<forall>hp\<in>set grid. \<exists>tm s.
            eval_candidate ext cfg d hl n fiu na hp = Inr (tm, s) \<and> \<not> s < 10 ^ 10)"
  then show "cross_validate ext cfg g d hl = Inl UnboundLocalError"
    by (simp add: cross_validate_def bindE_def search_unbound)
next
  assume "dataset_dims d = Inr (n, fiu, na)
      \<and> (param_grid.cutoff_radius g = [] \<or> param_grid.gaussian_params2_num g = []
           \<or> param_grid.alpha g = [])"
  then show "cross_validate ext cfg g d hl = Inl ValueError"
    by (auto simp: cross_validate_def bindE_def ParameterGrid_def)
qed

theorem cross_validate_sentinel_witness:
  "cross_validate memo_collab config0 grid2 kfold0 None
     = Inr \<lparr>best_model = \<lparr>x = None, coeffs = [2, 4, 1, 1, 3, 3]\<rparr>,
            debug_log =
              [quiet_log \<lparr>hyper_params.alpha = 1 / 100, cutoff_radius = 6,
                          gaussian_params2_num = 10\<rparr>,
               quiet_log \<lparr>hyper_params.alpha = 1, cutoff_radius = 6,
                          gaussian_params2_num = 10\<rparr>]\<rparr>
   \<and> cross_validate (memo_collab\<lparr>rmse := \<lambda>p e. 2 * 10 ^ 10\<rparr>) config0 grid2 kfold0 None
       = Inl UnboundLocalError
   \<and> cross_validate memo_collab config0 (grid2\<lparr>param_grid.gaussian_params2_num := []\<rparr>) kfold0 None
       = Inl ValueError"
proof -
  have a: "cross_validate memo_collab config0 grid2 kfold0 None
     = Inr \<lparr>best_model = \<lparr>x = None, coeffs = [2, 4, 1, 1, 3, 3]\<rparr>,
            debug_log =
              [quiet_log \<lparr>hyper_params.alpha = 1 / 100, cutoff_radius = 6,
                          gaussian_params2_num = 10\<rparr>,
               quiet_log \<lparr>hyper_params.alpha = 1, cutoff_radius = 6,
                          gaussian_params2_num = 10\<rparr>]\<rparr>"
    by (simp add: run_defs quiet_log_def)
  have dims: "dataset_dims kfold0 = Inr (2, 2, 2)"
    by (simp add: dataset_dims_def kfold0_def atom2_def)
  have grid: "ParameterGrid grid2
                = Inr [\<lparr>hyper_params.alpha = 1 / 100, cutoff_radius = 6, gaussian_params2_num = 10\<rparr>,
                       \<lparr>hyper_params.alpha = 1, cutoff_radius = 6, gaussian_params2_num = 10\<rparr>]"
    by (simp add: ParameterGrid_def grid2_def)
  have ev: "eval_candidate (memo_collab\<lparr>rmse := \<lambda>p e. 2 * 10 ^ 10\<rparr>) config0 kfold0 None 2 2 2 hp
             = Inr (\<lparr>x = Some [[2], [2]], coeffs = [2, 4, 1, 1, 3, 3]\<rparr>, 2 * 10 ^ 10)" for hp
    by (simp add: run_defs)
  have b: "cross_validate (memo_collab\<lparr>rmse := \<lambda>p e. 2 * 10 ^ 10\<rparr>) config0 grid2 kfold0 None
             = Inl UnboundLocalError"
    using cross_validate_sentinel [of "memo_collab\<lparr>rmse := \<lambda>p e. 2 * 10 ^ 10\<rparr>" config0 grid2 kfold0
             None undefined 2 2 2
             "[\<lparr>hyper_params.alpha = 1 / 100, cutoff_radius = 6, gaussian_params2_num = 10\<rparr>,
               \<lparr>hyper_params.alpha = 1, cutoff_radius = 6, gaussian_params2_num = 10\<rparr>]"]
          dims grid ev
    by simp
  have c: "cross_validate memo_collab config0 (grid2\<lparr>param_grid.gaussian_params2_num := []\<rparr>) kfold0 None
             = Inl ValueError"
    using cross_validate_sentinel [of memo_collab config0
             "grid2\<lparr>param_grid.gaussian_params2_num := []\<rparr>" kfold0 None undefined 2 2 2 undefined]
          dims
    by simp
  from a b c cross_validate_sentinel [of memo_collab config0 grid2 kfold0 None
         "\<lparr>best_model = \<lparr>x = None, coeffs = [2, 4, 1, 1, 3, 3]\<rparr>,
            debug_log =
              [quiet_log \<lparr>hyper_params.alpha = 1 / 100, cutoff_radius = 6,
                          gaussian_params2_num = 10\<rparr>,
               quiet_log \<lparr>hyper_params.alpha = 1, cutoff_radius = 6,
                          gaussian_params2_num = 10\<rparr>]\<rparr>" 2 2 2 undefined]
  show ?thesis by blast
qed

text \<open>
  Claim C10 as stated includes the empty grid among the grids that end in an unbound
  variable. A grid whose \<open>alpha\<close> dimension has no candidate is rejected with \<open>ValueError\<close>
  when \<open>ParameterGrid\<close> is built, before the loop is entered.
\<close>

theorem cross_validate_empty_grid:
  "ParameterGrid (grid2\<lparr>param_grid.alpha := []\<rparr>) = Inl ValueError
   \<and> cross_validate memo_collab config0 (grid2\<lparr>param_grid.alpha := []\<rparr>) kfold0 None
       = Inl ValueError"
  by (simp add: cross_validate_def ParameterGrid_def grid2_def dataset_dims_def kfold0_def
        atom2_def bindE_def)

section \<open>The number of folds\<close>

lemma eval_candidate_few_splits:
  assumes "n_splits cfg < 2"
  shows "\<exists>e. eval_candidate ext cfg d hl n fiu na hp = Inl e"
  using assms
  by (auto simp: eval_candidate_def candidate_scores_def KFold_def bindE_def Let_def
           split: sum.splits option.splits)

lemma eval_candidate_few_splits_prepared:
  assumes "n_splits cfg < 2"
    and "make_feature ext (arrange_model_from_hyper_params ext hp cfg) (structures d) True = Inr m1"
    and "apply_weight ext m1 (energy_weight cfg) (force_weight cfg) (high_energy_weights cfg) hl n = Inr m2"
    and "x m2 = Some X"
  shows "eval_candidate ext cfg d hl n fiu na hp = Inl ValueError"
  using assms by (simp add: eval_candidate_def candidate_scores_def KFold_def bindE_def Let_def)

text \<open>
  Claim C7. With \<open>n_splits\<close> below 2, \<open>cross_validate\<close> fails for every grid, data set and
  collaborator: no candidate can be evaluated. Once a candidate's features and weights are
  built, the failure is the \<open>ValueError\<close> with which \<open>KFold\<close> rejects the fold count, before
  any fold is scored and before the standard deviation is taken.
\<close>

theorem n_splits_below_two_rejected:
  assumes "n_splits cfg < 2"
  shows "(\<exists>e. cross_validate ext cfg g d hl = Inl e)
       \<and> (\<forall>n fiu na hp m1 m2 X.
            make_feature ext (arrange_model_from_hyper_params ext hp cfg) (structures d) True = Inr m1
            \<and> apply_weight ext m1 (energy_weight cfg) (force_weight cfg) (high_energy_weights cfg) hl n
                = Inr m2
            \<and> x m2 = Some X
            \<longrightarrow> eval_candidate ext cfg d hl n fiu na hp = Inl ValueError)"
proof
  show "\<exists>e. cross_validate ext cfg g d hl = Inl e"
  proof (cases "cross_validate ext cfg g d hl")
    case (Inl e)
    then show ?thesis by blast
  next
    case (Inr found)
    from cross_validate_Inr_D [OF this] obtain n fiu na grid where
      s: "search (eval_candidate ext cfg d hl n fiu na) grid = Inr (best_model found)"
      by blast
    from search_Inr_D [OF s] obtain hp tm sc where
      "eval_candidate ext cfg d hl n fiu na hp = Inr (tm, sc)" by blast
    with eval_candidate_few_splits [OF assms, of ext d hl n fiu na hp] show ?thesis by simp
  qed
next
  show "\<forall>n fiu na hp m1 m2 X.
            make_feature ext (arrange_model_from_hyper_params ext hp cfg) (structures d) True = Inr m1
            \<and> apply_weight ext m1 (energy_weight cfg) (force_weight cfg) (high_energy_weights cfg) hl n
                = Inr m2
            \<and> x m2 = Some X
            \<longrightarrow> eval_candidate ext cfg d hl n fiu na hp = Inl ValueError"
    using eval_candidate_few_splits_prepared [OF assms] by blast
qed

theorem n_splits_below_two_rejected_witness:
  "n_splits (config0\<lparr>n_splits := 1\<rparr>) < 2
   \<and> cross_validate memo_collab (config0\<lparr>n_splits := 1\<rparr>) grid2 kfold0 None = Inl ValueError"
proof -
  have h: "n_splits (config0\<lparr>n_splits := 1\<rparr>) < 2" by simp
  from n_splits_below_two_rejected [OF h, of memo_collab grid2 kfold0 None] show ?thesis
    by (simp add: run_defs)
qed

section \<open>The energy score\<close>

lemma score_fold_energy:
  assumes "score_fold ext cfg tgt n fiu na tm acc fd = Inr (tm', acc')"
  shows "\<exists>y p e.
          train ext tm (yids.target (make_yids_for_structure_ids ext (fst fd) n fiu (config.use_force cfg))) tgt
            = Inr tm'
        \<and> predict ext tm' None = Inr y
        \<and> take_rows y (energy (make_yids_for_structure_ids ext (snd fd) n fiu (config.use_force cfg))) = Inr p
        \<and> take_rows tgt (energy (make_yids_for_structure_ids ext (snd fd) n fiu (config.use_force cfg))) = Inr e
        \<and> rmses_energy acc' = rmses_energy acc
             @ [rmse ext (map (\<lambda>v. v / real na) p) (map (\<lambda>v. v / real na) e) * 1000]"
  using assms
  by (auto simp: score_fold_def Let_def bindE_Inr_iff split: if_splits)

lemma score_folds_energy:
  assumes "score_folds ext cfg tgt n fiu na tm acc folds = Inr (tm', acc')"
  shows "\<exists>es. rmses_energy acc' = rmses_energy acc @ es
          \<and> list_all2 (\<lambda>fd s. \<exists>tm1 tm2 y p e.
               train ext tm1 (yids.target (make_yids_for_structure_ids ext (fst fd) n fiu
                                              (config.use_force cfg))) tgt = Inr tm2
             \<and> predict ext tm2 None = Inr y
             \<and> take_rows y (energy (make_yids_for_structure_ids ext (snd fd) n fiu
                                       (config.use_force cfg))) = Inr p
             \<and> take_rows tgt (energy (make_yids_for_structure_ids ext (snd fd) n fiu
                                         (config.use_force cfg))) = Inr e
             \<and> s = rmse ext (map (\<lambda>v. v / real na) p) (map (\<lambda>v. v / real na) e) * 1000)
             folds es"
  using assms
proof (induction folds arbitrary: tm acc)
  case Nil
  then show ?case by simp
next
  case (Cons fd folds)
  from Cons.prems obtain tm1 acc1 where one: "score_fold ext cfg tgt n fiu na tm acc fd = Inr (tm1, acc1)"
    and rest: "score_folds ext cfg tgt n fiu na tm1 acc1 folds = Inr (tm', acc')"
    by (auto simp: bindE_Inr_iff)
  from score_fold_energy [OF one] obtain y p e where
    h: "train ext tm (yids.target (make_yids_for_structure_ids ext (fst fd) n fiu (config.use_force cfg))) tgt
            = Inr tm1"
       "predict ext tm1 None = Inr y"
       "take_rows y (energy (make_yids_for_structure_ids ext (snd fd) n fiu (config.use_force cfg))) = Inr p"
       "take_rows tgt (energy (make_yids_for_structure_ids ext (snd fd) n fiu (config.use_force cfg))) = Inr e"
       "rmses_energy acc1 = rmses_energy acc
             @ [rmse ext (map (\<lambda>v. v / real na) p) (map (\<lambda>v. v / real na) e) * 1000]"
    by blast
  from Cons.IH [OF rest] obtain es where
    es: "rmses_energy acc' = rmses_energy acc1 @ es"
    and rel: "list_all2 (\<lambda>fd s. \<exists>tm1 tm2 y p e.
               train ext tm1 (yids.target (make_yids_for_structure_ids ext (fst fd) n fiu
                                              (config.use_force cfg))) tgt = Inr tm2
             \<and> predict ext tm2 None = Inr y
             \<and> take_rows y (energy (make_yids_for_structure_ids ext (snd fd) n fiu
                                       (config.use_force cfg))) = Inr p
             \<and> take_rows tgt (energy (make_yids_for_structure_ids ext (snd fd) n fiu
                                         (config.use_force cfg))) = Inr e
             \<and> s = rmse ext (map (\<lambda>v. v / real na) p) (map (\<lambda>v. v / real na) e) * 1000)
             folds es"
    by blast
  let ?s = "rmse ext (map (\<lambda>v. v / real na) p) (map (\<lambda>v. v / real na) e) * 1000"
  have "rmses_energy acc' = rmses_energy acc @ (?s # es)" using es h(5) by simp
  moreover have "list_all2 (\<lambda>fd s. \<exists>tm1 tm2 y p e.
               train ext tm1 (yids.target (make_yids_for_structure_ids ext (fst fd) n fiu
                                              (config.use_force cfg))) tgt = Inr tm2
             \<and> predict ext tm2 None = Inr y
             \<and> take_rows y (energy (make_yids_for_structure_ids ext (snd fd) n fiu
                                       (config.use_force cfg))) = Inr p
             \<and> take_rows tgt (energy (make_yids_for_structure_ids ext (snd fd) n fiu
                                         (config.use_force cfg))) = Inr e
             \<and> s = rmse ext (map (\<lambda>v. v / real na) p) (map (\<lambda>v. v / real na) e) * 1000)
             (fd # folds) (?s # es)"
    using rel h(1-4) by auto
  ultimately show ?case by blast
qed

lemma retrain_and_score_energy:
  assumes "retrain_and_score ext cfg kd td hl n na m0 = Inr r"
  shows "kfold_target r = dataset.target kd
     \<and> (\<exists>y y'. predict ext (model r) None = Inr y
        \<and> predict ext (model r) (Some (structures td)) = Inr y'
        \<and> train_energy r
            = rmse ext (map (\<lambda>v. v / real na) (take (length (structures kd)) y))
                       (map (\<lambda>v. v / real na) (take (length (structures kd)) (dataset.target kd))) * 1000
        \<and> test_energy r
            = rmse ext (map (\<lambda>v. v / real na) (take (length (structures td)) y'))
                       (map (\<lambda>v. v / real na) (take (length (structures td)) (dataset.target td))) * 1000)"
  using assms
  by (auto simp: retrain_and_score_def Let_def bindE_Inr_iff)

lemma candidate_scores_energy:
  assumes "candidate_scores ext cfg d hl n fiu na hp = Inr (tm, s, lg)"
  shows "log_params lg = hp
       \<and> (\<exists>folds es. KFold_split (shuffle ext n) (nat (n_splits cfg)) n = Inr folds
            \<and> log_energy lg = map (round_to_4 ext) es
            \<and> log_energy_average lg = average ext es
            \<and> list_all2 (\<lambda>fd s. \<exists>tm1 tm2 y p e.
                 train ext tm1 (yids.target (make_yids_for_structure_ids ext (fst fd) n fiu
                                                (config.use_force cfg))) (dataset.target d) = Inr tm2
               \<and> predict ext tm2 None = Inr y
               \<and> take_rows y (energy (make_yids_for_structure_ids ext (snd fd) n fiu
                                         (config.use_force cfg))) = Inr p
               \<and> take_rows (dataset.target d) (energy (make_yids_for_structure_ids ext (snd fd) n fiu
                                           (config.use_force cfg))) = Inr e
               \<and> s = rmse ext (map (\<lambda>v. v / real na) p) (map (\<lambda>v. v / real na) e) * 1000)
               folds es)"
proof -
  from assms obtain m2 folds tm' scores where
    split: "KFold_split (shuffle ext n) (nat (n_splits cfg)) n = Inr folds"
    and sf: "score_folds ext cfg (dataset.target d) n fiu na m2
               \<lparr>rmses = [], rmses_energy = [], rmses_force = []\<rparr> folds = Inr (tm', scores)"
    and lg: "log_params lg = hp" "log_energy lg = map (round_to_4 ext) (rmses_energy scores)"
            "log_energy_average lg = average ext (rmses_energy scores)"
    by (auto simp: candidate_scores_def KFold_def Let_def bindE_Inr_iff split: if_splits)
  from score_folds_energy [OF sf] lg split show ?thesis by auto
qed

lemma logged_candidates_all:
  assumes "\<forall>hp\<in>set grid. \<exists>tm s lg. run hp = Inr (tm, s, lg) \<and> log_params lg = hp"
  shows "map log_params (logged_candidates run grid) = grid"
  using assms by (induction grid) (auto simp: logged_candidates_def)

lemma logged_candidates_mem:
  assumes "lg \<in> set (logged_candidates run grid)"
  shows "\<exists>hp\<in>set grid. \<exists>tm s. run hp = Inr (tm, s, lg)"
proof -
  from assms obtain hp where hp: "hp \<in> set grid"
    and mem: "lg \<in> set (case run hp of Inl _ \<Rightarrow> [] | Inr (tm, s, l) \<Rightarrow> [l])"
    by (auto simp: logged_candidates_def)
  from mem obtain tm s where "run hp = Inr (tm, s, lg)"
    by (cases "run hp") auto
  with hp show ?thesis by blast
qed

lemma search_all_evaluated:
  assumes "search ev grid = Inr m"
  shows "\<forall>hp\<in>set grid. \<exists>tm s. ev hp = Inr (tm, s)"
proof -
  let ?init = "\<lparr>retained_model_rmse = 10 ^ 10, retained_model = None :: 'a rilrm_scheme option,
                 retained_model_params = None\<rparr>"
  from assms obtain st where "cv_loop ev grid ?init = Inr st"
    unfolding search_Inr_iff by blast
  from cv_loop_first_minimum [OF this] show ?thesis
  proof
    assume "st = ?init \<and> (\<forall>h\<in>set grid. \<exists>tm' s'. ev h = Inr (tm', s')
              \<and> \<not> s' < retained_model_rmse ?init)"
    then show ?thesis by blast
  next
    assume "\<exists>pre hp post tm s. grid = pre @ hp # post \<and> ev hp = Inr (tm, s)
            \<and> st = \<lparr>retained_model_rmse = s, retained_model = Some (tm\<lparr>x := None\<rparr>),
                      retained_model_params = Some hp\<rparr>
            \<and> s < retained_model_rmse ?init
            \<and> (\<forall>h\<in>set pre. \<exists>tm' s'. ev h = Inr (tm', s') \<and> s < s')
            \<and> (\<forall>h\<in>set post. \<exists>tm' s'. ev h = Inr (tm', s') \<and> s \<le> s')"
    then obtain pre hp post tm s where g: "grid = pre @ hp # post" and e: "ev hp = Inr (tm, s)"
      and p: "\<forall>h\<in>set pre. \<exists>tm' s'. ev h = Inr (tm', s') \<and> s < s'"
      and q: "\<forall>h\<in>set post. \<exists>tm' s'. ev h = Inr (tm', s') \<and> s \<le> s'"
      by blast
    show ?thesis
    proof
      fix h assume "h \<in> set grid"
      then consider "h \<in> set pre" | "h = hp" | "h \<in> set post" using g by auto
      then show "\<exists>tm s. ev h = Inr (tm, s)" using e p q by cases blast+
    qed
  qed
qed

text \<open>
  Claim C4. With \<open>n_atoms\<close> the number of sites of the first structure of the k-fold pool,
  every energy score is \<open>rmse(predicted / n_atoms, expected / n_atoms) * 1000\<close>. In a run of
  \<open>cross_validate\<close> that returns, the log holds one entry per candidate of the grid, and in
  each entry the energy scores are, fold by fold, this value on the predicted and expected
  energies of the fold's validation rows, the prediction being that of the model trained
  on the fold's training rows; the log shows them through \<open>round_to_4\<close>, and their mean as
  it is. In \<open>train_and_eval\<close> the two scores are this value on the energy block of the k-fold
  pool and of the test pool. \<open>n_atoms\<close> is taken positive, where the division of the model
  is the division of the program.
\<close>

theorem energy_rmse_per_atom_milli:
  "(cross_validate ext cfg g d hl = Inr found \<and> sites (hd (structures d)) \<noteq> [] \<longrightarrow>
      (\<exists>fiu folds.
          dataset_dims d = Inr (length (structures d), fiu, length (sites (hd (structures d))))
        \<and> KFold_split (shuffle ext (length (structures d))) (nat (n_splits cfg))
            (length (structures d)) = Inr folds
        \<and> ParameterGrid g = Inr (map log_params (debug_log found))
        \<and> (\<forall>lg\<in>set (debug_log found). \<exists>es.
              log_energy lg = map (round_to_4 ext) es
            \<and> log_energy_average lg = average ext es
            \<and> list_all2 (\<lambda>fd s. \<exists>tm1 tm2 y p e.
                 train ext tm1 (yids.target (make_yids_for_structure_ids ext (fst fd)
                                  (length (structures d)) fiu (config.use_force cfg)))
                   (dataset.target d) = Inr tm2
               \<and> predict ext tm2 None = Inr y
               \<and> take_rows y (energy (make_yids_for_structure_ids ext (snd fd)
                                  (length (structures d)) fiu (config.use_force cfg))) = Inr p
               \<and> take_rows (dataset.target d) (energy (make_yids_for_structure_ids ext (snd fd)
                                  (length (structures d)) fiu (config.use_force cfg))) = Inr e
               \<and> s = rmse ext (map (\<lambda>v. v / real (length (sites (hd (structures d))))) p)
                              (map (\<lambda>v. v / real (length (sites (hd (structures d))))) e) * 1000)
               folds es)))
   \<and> (train_and_eval ext cfg kd td yk = Inr r \<and> sites (hd (structures kd)) \<noteq> [] \<longrightarrow>
      (\<exists>y y'. predict ext (model r) None = Inr y
        \<and> predict ext (model r) (Some (structures td)) = Inr y'
        \<and> train_energy r
            = rmse ext (map (\<lambda>v. v / real (length (sites (hd (structures kd)))))
                            (take (length (structures kd)) y))
                       (map (\<lambda>v. v / real (length (sites (hd (structures kd)))))
                            (take (length (structures kd)) (kfold_target r))) * 1000
        \<and> test_energy r
            = rmse ext (map (\<lambda>v. v / real (length (sites (hd (structures kd)))))
                            (take (length (structures td)) y'))
                       (map (\<lambda>v. v / real (length (sites (hd (structures kd)))))
                            (take (length (structures td)) (dataset.target td))) * 1000))"
proof (intro conjI impI)
  assume a: "cross_validate ext cfg g d hl = Inr found \<and> sites (hd (structures d)) \<noteq> []"
  then obtain n fiu na grid where dims: "dataset_dims d = Inr (n, fiu, na)"
    and grid: "ParameterGrid g = Inr grid"
    and s: "search (eval_candidate ext cfg d hl n fiu na) grid = Inr (best_model found)"
    and lg: "debug_log found = logged_candidates (candidate_scores ext cfg d hl n fiu na) grid"
    using cross_validate_Inr_D by blast
  from dataset_dims_Inr_D [OF dims] have n: "n = length (structures d)"
    and na: "na = length (sites (hd (structures d)))" and ne: "structures d \<noteq> []" by simp_all
  have all: "\<forall>hp\<in>set grid. \<exists>tm s lg. candidate_scores ext cfg d hl n fiu na hp = Inr (tm, s, lg)
               \<and> log_params lg = hp"
  proof
    fix hp assume "hp \<in> set grid"
    with search_all_evaluated [OF s] obtain tm sc where
      "eval_candidate ext cfg d hl n fiu na hp = Inr (tm, sc)" by blast
    from eval_candidate_Inr_D [OF this] obtain l where
      c: "candidate_scores ext cfg d hl n fiu na hp = Inr (tm, sc, l)" by blast
    with candidate_scores_energy [OF c] show "\<exists>tm s lg. candidate_scores ext cfg d hl n fiu na hp = Inr (tm, s, lg)
               \<and> log_params lg = hp" by blast
  qed
  have params: "map log_params (debug_log found) = grid"
    unfolding lg by (rule logged_candidates_all [OF all])
  from search_Inr_D [OF s] obtain hp0 tm0 s0 where
    "eval_candidate ext cfg d hl n fiu na hp0 = Inr (tm0, s0)" by blast
  from eval_candidate_Inr_D [OF this] obtain l0 where
    "candidate_scores ext cfg d hl n fiu na hp0 = Inr (tm0, s0, l0)" by blast
  from candidate_scores_energy [OF this] obtain folds where
    folds: "KFold_split (shuffle ext n) (nat (n_splits cfg)) n = Inr folds" by blast
  have each: "\<exists>es. log_energy l = map (round_to_4 ext) es
            \<and> log_energy_average l = average ext es
            \<and> list_all2 (\<lambda>fd s. \<exists>tm1 tm2 y p e.
                 train ext tm1 (yids.target (make_yids_for_structure_ids ext (fst fd) n fiu
                                                (config.use_force cfg))) (dataset.target d) = Inr tm2
               \<and> predict ext tm2 None = Inr y
               \<and> take_rows y (energy (make_yids_for_structure_ids ext (snd fd) n fiu
                                         (config.use_force cfg))) = Inr p
               \<and> take_rows (dataset.target d) (energy (make_yids_for_structure_ids ext (snd fd) n fiu
                                           (config.use_force cfg))) = Inr e
               \<and> s = rmse ext (map (\<lambda>v. v / real na) p) (map (\<lambda>v. v / real na) e) * 1000)
               folds es"
    if "l \<in> set (debug_log found)" for l
  proof -
    from that lg logged_candidates_mem obtain hp tm sc where
      "candidate_scores ext cfg d hl n fiu na hp = Inr (tm, sc, l)" by metis
    from candidate_scores_energy [OF this] folds show ?thesis by auto
  qed
  from dims folds grid params each
  show "\<exists>fiu folds.
          dataset_dims d = Inr (length (structures d), fiu, length (sites (hd (structures d))))
        \<and> KFold_split (shuffle ext (length (structures d))) (nat (n_splits cfg))
            (length (structures d)) = Inr folds
        \<and> ParameterGrid g = Inr (map log_params (debug_log found))
        \<and> (\<forall>lg\<in>set (debug_log found). \<exists>es.
              log_energy lg = map (round_to_4 ext) es
            \<and> log_energy_average lg = average ext es
            \<and> list_all2 (\<lambda>fd s. \<exists>tm1 tm2 y p e.
                 train ext tm1 (yids.target (make_yids_for_structure_ids ext (fst fd)
                                  (length (structures d)) fiu (config.use_force cfg)))
                   (dataset.target d) = Inr tm2
               \<and> predict ext tm2 None = Inr y
               \<and> take_rows y (energy (make_yids_for_structure_ids ext (snd fd)
                                  (length (structures d)) fiu (config.use_force cfg))) = Inr p
               \<and> take_rows (dataset.target d) (energy (make_yids_for_structure_ids ext (snd fd)
                                  (length (structures d)) fiu (config.use_force cfg))) = Inr e
               \<and> s = rmse ext (map (\<lambda>v. v / real (length (sites (hd (structures d))))) p)
                              (map (\<lambda>v. v / real (length (sites (hd (structures d))))) e) * 1000)
               folds es)"
    unfolding n na by blast
next
  assume a: "train_and_eval ext cfg kd td yk = Inr r \<and> sites (hd (structures kd)) \<noteq> []"
  then obtain n' fiu' na' hl tgt' m0 where dims: "dataset_dims kd = Inr (n', fiu', na')"
    and rs: "retrain_and_score ext cfg (kd\<lparr>dataset.target := tgt'\<rparr>) td hl n' na' m0 = Inr r"
    using train_and_eval_Inr_D by blast
  from dataset_dims_Inr_D [OF dims] have n': "n' = length (structures kd)"
    and na': "na' = length (sites (hd (structures kd)))" by simp_all
  from retrain_and_score_energy [OF rs] show "\<exists>y y'. predict ext (model r) None = Inr y
        \<and> predict ext (model r) (Some (structures td)) = Inr y'
        \<and> train_energy r
            = rmse ext (map (\<lambda>v. v / real (length (sites (hd (structures kd)))))
                            (take (length (structures kd)) y))
                       (map (\<lambda>v. v / real (length (sites (hd (structures kd)))))
                            (take (length (structures kd)) (kfold_target r))) * 1000
        \<and> test_energy r
            = rmse ext (map (\<lambda>v. v / real (length (sites (hd (structures kd)))))
                            (take (length (structures td)) y'))
                       (map (\<lambda>v. v / real (length (sites (hd (structures kd)))))
                            (take (length (structures td)) (dataset.target td))) * 1000"
    unfolding na' by simp
qed

theorem energy_rmse_per_atom_milli_witness:
  "cross_validate offset_collab config0 grid2 kfold0 None
     = Inr \<lparr>best_model = \<lparr>x = None, coeffs = [4, 6, 3, 3, 5, 5]\<rparr>,
            debug_log =
              [offset_log \<lparr>hyper_params.alpha = 1 / 100, cutoff_radius = 6,
                           gaussian_params2_num = 10\<rparr>,
               offset_log \<lparr>hyper_params.alpha = 1, cutoff_radius = 6,
                           gaussian_params2_num = 10\<rparr>]\<rparr>
   \<and> train_and_eval memo_collab config0 kfold0 test0 yids0
       = Inr \<lparr>model = \<lparr>x = Some [[2], [2]], coeffs = [2, 4, 1, 1, 3, 3]\<rparr>,
              kfold_target = [2, 4, 1, 1, 3, 3], train_energy = 0, train_force = Some 0,
              test_energy = 2000, test_force = Some 0,
              recorded = [([1, 2], [1, 2], ''models/prediction/kfold_energy.out''),
                          ([0], [2], ''models/prediction/test_energy.out'')]\<rparr>"
proof -
  have a: "cross_validate offset_collab config0 grid2 kfold0 None
     = Inr \<lparr>best_model = \<lparr>x = None, coeffs = [4, 6, 3, 3, 5, 5]\<rparr>,
            debug_log =
              [offset_log \<lparr>hyper_params.alpha = 1 / 100, cutoff_radius = 6,
                           gaussian_params2_num = 10\<rparr>,
               offset_log \<lparr>hyper_params.alpha = 1, cutoff_radius = 6,
                           gaussian_params2_num = 10\<rparr>]\<rparr>"
    by (simp add: offset_collab_def offset_log_def run_defs)
  have b: "train_and_eval memo_collab config0 kfold0 test0 yids0
       = Inr \<lparr>model = \<lparr>x = Some [[2], [2]], coeffs = [2, 4, 1, 1, 3, 3]\<rparr>,
              kfold_target = [2, 4, 1, 1, 3, 3], train_energy = 0, train_force = Some 0,
              test_energy = 2000, test_force = Some 0,
              recorded = [([1, 2], [1, 2], ''models/prediction/kfold_energy.out''),
                          ([0], [2], ''models/prediction/test_energy.out'')]\<rparr>"
    by (simp add: eval_defs)
  have c: "sites (hd (structures kfold0)) \<noteq> []" by (simp add: kfold0_def atom2_def)
  from energy_rmse_per_atom_milli
         [where ext = offset_collab and cfg = config0 and g = grid2 and d = kfold0 and hl = None]
       energy_rmse_per_atom_milli
         [where ext = memo_collab and cfg = config0 and kd = kfold0 and td = test0 and yk = yids0]
       a b c
  show ?thesis by blast
qed

section \<open>The snapshot in the store\<close>

lemma refs_of_iff: "r \<in> set (refs_of h a) \<longleftrightarrow> (\<exists>k. (k, ARef r) \<in> set (objects h ! a))"
  by (force simp: refs_of_def split: attr.splits)

lemma map_of_set_attr: "map_of (set_attr k v xs) = (map_of xs)(k \<mapsto> v)"
  by (induction xs) (auto simp: fun_eq_iff)

lemma copy_attrs_spec:
  assumes "copy_attrs arrs memo attrs = (arrs', memo', attrs')"
    and "N \<le> length arrs"
    and "\<forall>(a, a')\<in>set memo. a < N \<and> N \<le> a' \<and> a' < length arrs \<and> arrs ! a' = arrs ! a"
    and "\<forall>(k, v)\<in>set attrs. \<forall>a. v = ARef a \<longrightarrow> a < N"
  shows "(\<exists>ext. arrs' = arrs @ ext) \<and> list_all2 (copied N arrs') attrs attrs'"
  using assms
proof (induction attrs arbitrary: arrs memo arrs' memo' attrs')
  case Nil
  then show ?case by simp
next
  case (Cons kv rest)
  obtain k v where kv: "kv = (k, v)" by (cases kv)
  show ?case
  proof (cases v)
    case ANone
    with Cons.prems(1) kv obtain R where run: "copy_attrs arrs memo rest = (arrs', memo', R)"
      and out: "attrs' = (k, v) # R"
      by (auto split: prod.splits)
    from Cons.prems(4) have "\<forall>(k, v)\<in>set rest. \<forall>a. v = ARef a \<longrightarrow> a < N" by simp
    from Cons.IH [OF run Cons.prems(2,3) this] ANone kv out show ?thesis
      by (simp add: copied_def)
  next
    case (AImm c)
    with Cons.prems(1) kv obtain R where run: "copy_attrs arrs memo rest = (arrs', memo', R)"
      and out: "attrs' = (k, v) # R"
      by (auto split: prod.splits)
    from Cons.prems(4) have "\<forall>(k, v)\<in>set rest. \<forall>a. v = ARef a \<longrightarrow> a < N" by simp
    from Cons.IH [OF run Cons.prems(2,3) this] AImm kv out show ?thesis
      by (simp add: copied_def)
  next
    case (ARef a)
    from Cons.prems(4) kv ARef have aN: "a < N" by simp
    from Cons.prems(4) have wf: "\<forall>(k, v)\<in>set rest. \<forall>a. v = ARef a \<longrightarrow> a < N" by simp
    show ?thesis
    proof (cases "map_of memo a")
      case (Some a')
      with Cons.prems(1) kv ARef obtain R where run: "copy_attrs arrs memo rest = (arrs', memo', R)"
        and out: "attrs' = (k, ARef a') # R"
        by (auto split: prod.splits)
      from Cons.IH [OF run Cons.prems(2,3) wf] obtain ext where ext: "arrs' = arrs @ ext"
        and rel: "list_all2 (copied N arrs') rest R" by blast
      from Some have "(a, a') \<in> set memo" by (rule map_of_SomeD)
      with Cons.prems(3) have m: "N \<le> a'" "a' < length arrs" "arrs ! a' = arrs ! a" by auto
      from m aN Cons.prems(2) ext have "copied N arrs' (k, ARef a) (k, ARef a')"
        by (simp add: copied_def nth_append)
      with ext rel kv ARef out show ?thesis by simp
    next
      case None
      let ?arrs1 = "arrs @ [arrs ! a]" and ?memo1 = "(a, length arrs) # memo"
      from None Cons.prems(1) kv ARef obtain R where run: "copy_attrs ?arrs1 ?memo1 rest = (arrs', memo', R)"
        and out: "attrs' = (k, ARef (length arrs)) # R"
        by (auto split: prod.splits)
      have len1: "N \<le> length ?arrs1" using Cons.prems(2) by simp
      have inv1: "\<forall>(b, b')\<in>set ?memo1. b < N \<and> N \<le> b' \<and> b' < length ?arrs1 \<and> ?arrs1 ! b' = ?arrs1 ! b"
        using Cons.prems(2,3) aN by (auto simp: nth_append)
      from Cons.IH [OF run len1 inv1 wf] obtain ext where ext: "arrs' = ?arrs1 @ ext"
        and rel: "list_all2 (copied N arrs') rest R" by blast
      from ext have ext': "arrs' = arrs @ (arrs ! a # ext)" by simp
      from aN Cons.prems(2) have "copied N arrs' (k, ARef a) (k, ARef (length arrs))"
        unfolding ext' by (simp add: copied_def nth_append)
      with ext' rel kv ARef out show ?thesis by blast
    qed
  qed
qed

lemma copied_map_of:
  assumes "list_all2 (copied N arrs') attrs attrs'"
    and "\<forall>(k, v)\<in>set attrs. \<forall>a. v = ARef a \<longrightarrow> a < N"
    and "N \<le> length arrs" and "arrs' = arrs @ ext"
  shows "map_option (resolve arrs') (map_of attrs' k) = map_option (resolve arrs) (map_of attrs k)"
  using assms(1,2)
proof (induction rule: list_all2_induct)
  case Nil
  then show ?case by simp
next
  case (Cons kv xs kv' ys)
  obtain k1 v where kv: "kv = (k1, v)" by (cases kv)
  obtain k2 v' where kv': "kv' = (k2, v')" by (cases kv')
  from Cons.hyps(1) kv kv' have keys: "k2 = k1" by (simp add: copied_def)
  have res: "resolve arrs' v' = resolve arrs v"
  proof (cases v)
    case (ARef a)
    with Cons.prems kv have "a < N" by simp
    with Cons.hyps(1) kv kv' ARef assms(3,4) show ?thesis
      by (auto simp: copied_def resolve_def nth_append split: attr.splits)
  qed (use Cons.hyps(1) kv kv' in \<open>auto simp: copied_def resolve_def\<close>)
  from Cons.prems have "\<forall>(k, v)\<in>set xs. \<forall>a. v = ARef a \<longrightarrow> a < N" by simp
  with Cons.IH keys res kv kv' show ?case by simp
qed

lemma copied_refs_fresh:
  assumes "list_all2 (copied N arrs') attrs attrs'" and "(k, ARef r) \<in> set attrs'"
  shows "N \<le> r \<and> r < length arrs'"
  using assms
proof (induction rule: list_all2_induct)
  case Nil
  then show ?case by simp
next
  case (Cons kv xs kv' ys)
  show ?case
  proof (cases "kv' = (k, ARef r)")
    case True
    with Cons.hyps(1) show ?thesis
      by (cases kv; cases "snd kv") (auto simp: copied_def split: attr.splits)
  next
    case False
    with Cons show ?thesis by simp
  qed
qed

lemma set_attr_refs:
  assumes "(k', ARef r) \<in> set (set_attr k ANone xs)"
  shows "(k', ARef r) \<in> set xs"
  using assms by (induction xs) (auto split: if_splits)

lemma retain_in_store_improve:
  assumes "s < ref_rmse st"
    and "copy_attrs (arrays h) [] (objects h ! tm) = (arrs', memo', attrs')"
  shows "retain_in_store h st tm hp s =
           (h\<lparr>arrays := arrs', objects := objects h @ [set_attr ''x'' ANone attrs'],
              dicts := dicts h @ [dicts h ! hp]\<rparr>,
            \<lparr>ref_rmse = s, ref_model = Some (length (objects h)),
             ref_params = Some (length (dicts h))\<rparr>)"
  using assms
  by (simp add: retain_in_store_def deepcopy_object_def deepcopy_dict_def setattr_def)

lemma rilrm_of_cleared:
  assumes "attr_values h' a' = (attr_values h a)(''x'' \<mapsto> VNone)"
  shows "rilrm_of h' a' = (rilrm_of h a)\<lparr>x := None\<rparr>"
  using assms by (simp add: rilrm_of_def)

text \<open>
  Claim C9. When a candidate strictly improves the score, the retained model and the
  retained hyper parameters are new objects, everything that was in the store before (the
  candidate, its arrays, its hyper parameters) is unchanged, and every array the retained
  model refers to was allocated by the copy, so that the snapshot shares no array with the
  candidate. After the step the snapshot's attribute \<open>x\<close> is \<open>None\<close> and every other attribute
  denotes the value it denotes in the candidate; the retained hyper parameters equal the
  candidate's. Read as values, the step is \<open>retain\<close>.
\<close>

theorem retained_snapshot_independent:
  assumes "closed_at h tm" and "hp < length (dicts h)" and "s < ref_rmse st"
    and "retain_in_store h st tm hp s = (h', st')"
  shows "st' = \<lparr>ref_rmse = s, ref_model = Some (length (objects h)),
               ref_params = Some (length (dicts h))\<rparr>
    \<and> take (length (arrays h)) (arrays h') = arrays h
    \<and> take (length (objects h)) (objects h') = objects h
    \<and> take (length (dicts h)) (dicts h') = dicts h
    \<and> closed_at h' (length (objects h))
    \<and> (\<forall>r\<in>set (refs_of h' (length (objects h))). length (arrays h) \<le> r)
    \<and> attr_values h' (length (objects h)) = (attr_values h tm)(''x'' \<mapsto> VNone)
    \<and> dicts h' ! length (dicts h) = dicts h ! hp
    \<and> state_of h' st' = retain (state_of h st) (rilrm_of h tm) (dicts h ! hp) s"
proof -
  let ?N = "length (arrays h)" and ?attrs = "objects h ! tm"
  obtain arrs' memo' attrs' where ca: "copy_attrs (arrays h) [] ?attrs = (arrs', memo', attrs')"
    by (cases "copy_attrs (arrays h) [] ?attrs") auto
  have wf: "\<forall>(k, v)\<in>set ?attrs. \<forall>a. v = ARef a \<longrightarrow> a < ?N"
    using assms(1) by (auto simp: closed_at_def list_all_iff refs_of_iff)
  have "(\<exists>ext. arrs' = arrays h @ ext) \<and> list_all2 (copied ?N arrs') ?attrs attrs'"
    by (rule copy_attrs_spec [OF ca _ _ wf]) simp_all
  then obtain ext where ext: "arrs' = arrays h @ ext"
    and rel: "list_all2 (copied ?N arrs') ?attrs attrs'" by blast
  let ?new = "set_attr ''x'' ANone attrs'"
  from retain_in_store_improve [OF assms(3) ca, of hp] assms(4)
  have h': "h' = h\<lparr>arrays := arrs', objects := objects h @ [?new],
                   dicts := dicts h @ [dicts h ! hp]\<rparr>"
    and st': "st' = \<lparr>ref_rmse = s, ref_model = Some (length (objects h)),
                     ref_params = Some (length (dicts h))\<rparr>"
    by simp_all
  have frame: "take ?N (arrays h') = arrays h" "take (length (objects h)) (objects h') = objects h"
      "take (length (dicts h)) (dicts h') = dicts h"
    using h' ext by simp_all
  have obj: "objects h' ! length (objects h) = ?new" using h' by simp
  have fresh: "?N \<le> r \<and> r < length arrs'" if "r \<in> set (refs_of h' (length (objects h)))" for r
  proof -
    from that obj obtain k where "(k, ARef r) \<in> set ?new" by (auto simp: refs_of_iff)
    then have "(k, ARef r) \<in> set attrs'" by (rule set_attr_refs)
    with rel show ?thesis by (rule copied_refs_fresh)
  qed
  have closed: "closed_at h' (length (objects h))"
    using fresh h' by (auto simp: closed_at_def list_all_iff)
  have vals: "attr_values h' (length (objects h)) = (attr_values h tm)(''x'' \<mapsto> VNone)"
  proof
    fix k
    have "map_option (resolve arrs') (map_of attrs' k) = map_option (resolve (arrays h)) (map_of ?attrs k)"
      by (rule copied_map_of [OF rel wf _ ext]) simp
    then show "attr_values h' (length (objects h)) k = ((attr_values h tm)(''x'' \<mapsto> VNone)) k"
      using h' by (simp add: attr_values_def map_of_set_attr resolve_def)
  qed
  have dict: "dicts h' ! length (dicts h) = dicts h ! hp" using h' by simp
  have "state_of h' st' = retain (state_of h st) (rilrm_of h tm) (dicts h ! hp) s"
    using assms(3) st' dict rilrm_of_cleared [OF vals]
    by (simp add: state_of_def retain_def)
  with st' frame closed fresh vals dict show ?thesis by blast
qed

theorem retained_snapshot_independent_witness:
  "retain_in_store store0 \<lparr>ref_rmse = 10 ^ 10, ref_model = None, ref_params = None\<rparr> 0 0 4
     = (\<lparr>arrays = [[[1, 2], [3, 4]], [[5]], [[1, 2], [3, 4]], [[5]]],
         objects = [[(''x'', ARef 0), (''scaler'', ANone), (''coeffs'', ARef 1), (''alpha'', AImm 1)],
                    [(''x'', ANone), (''scaler'', ANone), (''coeffs'', ARef 3), (''alpha'', AImm 1)]],
         dicts = [\<lparr>hyper_params.alpha = 1, cutoff_radius = 6, gaussian_params2_num = 10\<rparr>,
                  \<lparr>hyper_params.alpha = 1, cutoff_radius = 6, gaussian_params2_num = 10\<rparr>]\<rparr>,
        \<lparr>ref_rmse = 4, ref_model = Some 1, ref_params = Some 1\<rparr>)"
proof -
  have run: "retain_in_store store0 \<lparr>ref_rmse = 10 ^ 10, ref_model = None, ref_params = None\<rparr> 0 0 4
     = (\<lparr>arrays = [[[1, 2], [3, 4]], [[5]], [[1, 2], [3, 4]], [[5]]],
         objects = [[(''x'', ARef 0), (''scaler'', ANone), (''coeffs'', ARef 1), (''alpha'', AImm 1)],
                    [(''x'', ANone), (''scaler'', ANone), (''coeffs'', ARef 3), (''alpha'', AImm 1)]],
         dicts = [\<lparr>hyper_params.alpha = 1, cutoff_radius = 6, gaussian_params2_num = 10\<rparr>,
                  \<lparr>hyper_params.alpha = 1, cutoff_radius = 6, gaussian_params2_num = 10\<rparr>]\<rparr>,
        \<lparr>ref_rmse = 4, ref_model = Some 1, ref_params = Some 1\<rparr>)"
    by (simp add: retain_in_store_def deepcopy_object_def deepcopy_dict_def setattr_def store0_def)
  have c: "closed_at store0 0"
    by (simp add: closed_at_def refs_of_def store0_def)
  have d: "0 < length (dicts store0)" by (simp add: store0_def)
  have s: "4 < ref_rmse \<lparr>ref_rmse = 10 ^ 10, ref_model = None, ref_params = None\<rparr>" by simp
  from retained_snapshot_independent [OF c d s run] run show ?thesis by simp
qed

end
